theory Spec2Isabelle
  imports Complex_Main "HOL-Library.Sublist" "HOL-Library.Monad_Syntax" "HOL-Library.Countable"
begin

section \<open>Clueless Closet: the wardrobe aggregate and its persistence (script.js)\<close>

text \<open>
  The program is one script over a global object \<open>app\<close>, the browser's
  \<open>localStorage\<close> and the DOM. The model passes the state explicitly:
  \<^item> a garment is a JavaScript object, shared by reference between the collections, the
    selection and the saved outfits, so garment objects live in an explicit store
    (\<open>objects\<close>, indexed by reference) and every other place holds references;
  \<^item> \<open>localStorage\<close> is one slot (the key \<open>STORAGE_KEY\<close>), absent or holding a text;
  \<^item> \<open>showNotification\<close> appends to a log of (message, severity) pairs;
  \<^item> the platform functions the script calls but does not define (\<open>JSON.parse\<close>,
    \<open>JSON.stringify\<close>, the outcome of \<open>localStorage.setItem\<close>) are parameters;
  \<^item> clock readings, \<open>Math.random()\<close> draws, the answer to \<open>confirm\<close> and the outcome
    of a file read are arguments of the operation that asks for them;
  \<^item> rendering (\<open>renderUI\<close>, \<open>renderOutfit\<close>, \<open>updateStorageInfo\<close>, \<open>closeSettings\<close>)
    reads the state and writes the DOM only; it is left out, except for whether
    \<open>renderUI\<close> throws on the values an import has just assigned, which decides the
    message the import ends with.
  A string is a list of code units, \<open>length\<close> being JavaScript's \<open>.length\<close>.
\<close>

subsection \<open>Constants\<close>

definition STORAGE_KEY :: string where
  "STORAGE_KEY = ''clueless-closet-wardrobe''"

definition MAX_IMAGE_SIZE :: nat where
  "MAX_IMAGE_SIZE = 5 * 1024 * 1024"

subsection \<open>Data\<close>

text \<open>
  The object literal built by \<open>addItem\<close> and \<open>bulkImportImages\<close>; field \<open>g_x\<close> is the
  source's \<open>x\<close>. \<open>link\<close> is a string or \<open>null\<close>.
\<close>

record garment =
  g_id :: int
  g_brand :: string
  g_name :: string
  g_image :: string
  g_link :: "string option"
  g_source :: string
  g_uploadedAt :: string

type_synonym ref = nat

text \<open>
  The object literal built by \<open>saveOutfit\<close>: \<open>{id, top, bottom}\<close>, where \<open>top\<close> and
  \<open>bottom\<close> hold references to garment objects.
\<close>

record outfit =
  o_id :: int
  o_top :: ref
  o_bottom :: ref

text \<open>
  The global \<open>app\<close>, together with the garment objects allocated so far. A reference is
  an index into \<open>objects\<close>; allocation appends, and nothing is ever freed.
\<close>

record app_state =
  objects :: "garment list"
  topwear :: "ref list"
  bottomwear :: "ref list"
  selectedTop :: "ref option"
  selectedBottom :: "ref option"
  savedOutfits :: "outfit list"

text \<open>One constructor for each message text passed to \<open>showNotification\<close>.\<close>

datatype message =
    StorageLimitExceeded      \<comment> \<open>Storage limit exceeded! Delete some items to free up space.\<close>
  | ErrorSavingData           \<comment> \<open>Error saving data\<close>
  | ErrorLoadingSavedData     \<comment> \<open>Error loading saved data\<close>
  | AllDataCleared            \<comment> \<open>All data cleared\<close>
  | OnlyJpgAndPng             \<comment> \<open>Only JPG and PNG images are supported\<close>
  | ImageTooLarge             \<comment> \<open>Image must be smaller than 5MB\<close>
  | FillRequiredFields        \<comment> \<open>Please fill in all required fields\<close>
  | ItemAdded                 \<comment> \<open>Item added successfully!\<close>
  | ErrorProcessingImage      \<comment> \<open>Error processing image\<close>
  | SelectAtLeastOneImage     \<comment> \<open>Please select at least one image\<close>
  | ImportedWithFailures nat nat  \<comment> \<open>Imported successCount items (failCount failed)\<close>
  | SuccessfullyImported nat  \<comment> \<open>Successfully imported successCount items!\<close>
  | AddTopAndBottomFirst      \<comment> \<open>Please add at least one top and one bottom first\<close>
  | SelectCompleteOutfit      \<comment> \<open>Please select a complete outfit first\<close>
  | OutfitSaved               \<comment> \<open>Outfit saved!\<close>
  | WardrobeExported          \<comment> \<open>Wardrobe exported!\<close>
  | WardrobeImported          \<comment> \<open>Wardrobe imported successfully!\<close>
  | ErrorImportingConfig      \<comment> \<open>Error importing config\<close>

datatype severity = SuccessToast | ErrorToast

record world =
  app :: app_state
  slot :: "string option"
  notifications :: "(message \<times> severity) list"

definition showNotification :: "message \<Rightarrow> severity \<Rightarrow> world \<Rightarrow> world" where
  "showNotification m t w = w\<lparr>notifications := notifications w @ [(m, t)]\<rparr>"

definition deref :: "app_state \<Rightarrow> ref \<Rightarrow> garment" where
  "deref a r = objects a ! r"

text \<open>Every reference held by the aggregate points at an allocated object.\<close>

definition wf_app :: "app_state \<Rightarrow> bool" where
  "wf_app a \<longleftrightarrow>
     list_all (\<lambda>r. r < length (objects a)) (topwear a) \<and>
     list_all (\<lambda>r. r < length (objects a)) (bottomwear a) \<and>
     list_all (\<lambda>r. r < length (objects a)) (map o_top (savedOutfits a)) \<and>
     list_all (\<lambda>r. r < length (objects a)) (map o_bottom (savedOutfits a)) \<and>
     (case selectedTop a of None \<Rightarrow> True | Some r \<Rightarrow> r < length (objects a)) \<and>
     (case selectedBottom a of None \<Rightarrow> True | Some r \<Rightarrow> r < length (objects a))"

subsection \<open>JSON values and the platform\<close>

text \<open>
  The value tree that \<open>JSON.parse\<close> returns and \<open>JSON.stringify\<close> prints. Numbers are
  integers here: the only numbers the script writes are ids (\<open>Date.now()\<close>, plus an
  index). An object is its key/value pairs in insertion order.
\<close>

datatype json =
    JNull
  | JBool bool
  | JNum int
  | JStr string
  | JArr "json list"
  | JObj "(string \<times> json) list"

instance json :: countable
  by countable_datatype

text \<open>
  \<open>JSON_parse s = None\<close> when \<open>JSON.parse\<close> throws; \<open>JSON_stringify n v\<close> is
  \<open>JSON.stringify(v, null, n)\<close> (\<open>n = 0\<close> for the one-argument call);
  \<open>setItem_error s\<close> is the \<open>name\<close> of the exception \<open>localStorage.setItem\<close> throws when
  asked to store \<open>s\<close>, or \<open>None\<close> when it stores it; \<open>Number_times x y\<close> is the product
  \<open>x * y\<close> of two numbers as the platform computes it, rounded to a double.
\<close>

record platform =
  JSON_parse :: "string \<Rightarrow> json option"
  JSON_stringify :: "nat \<Rightarrow> json \<Rightarrow> string"
  setItem_error :: "string \<Rightarrow> string option"
  Number_times :: "real \<Rightarrow> real \<Rightarrow> real"

definition garment_json :: "garment \<Rightarrow> json" where
  "garment_json g = JObj
     [(''id'', JNum (g_id g)),
      (''brand'', JStr (g_brand g)),
      (''name'', JStr (g_name g)),
      (''image'', JStr (g_image g)),
      (''link'', (case g_link g of None \<Rightarrow> JNull | Some l \<Rightarrow> JStr l)),
      (''source'', JStr (g_source g)),
      (''uploadedAt'', JStr (g_uploadedAt g))]"

definition outfit_json :: "app_state \<Rightarrow> outfit \<Rightarrow> json" where
  "outfit_json a x = JObj
     [(''id'', JNum (o_id x)),
      (''top'', garment_json (deref a (o_top x))),
      (''bottom'', garment_json (deref a (o_bottom x)))]"

text \<open>
  The three collections as \<open>JSON.stringify\<close> sees them when it walks the object graph
  from \<open>app.topwear\<close>, \<open>app.bottomwear\<close> and \<open>app.savedOutfits\<close>.
\<close>

definition collections_json :: "app_state \<Rightarrow> (string \<times> json) list" where
  "collections_json a =
     [(''topwear'', JArr (map (\<lambda>r. garment_json (deref a r)) (topwear a))),
      (''bottomwear'', JArr (map (\<lambda>r. garment_json (deref a r)) (bottomwear a))),
      (''savedOutfits'', JArr (map (outfit_json a) (savedOutfits a)))]"

subsection \<open>Storage functions\<close>

text \<open>
  \<open>getStorageUsage\<close>: \<open>Math.round((stored.length / 1024 / 1024) * 100) / 100\<close>, and 0
  when the slot is absent or empty (\<open>!stored\<close>). \<open>Math.round\<close> rounds to the nearest
  integer, a half upwards, which is \<^const>\<open>round\<close>. The result is the exact quotient; the
  script's double arithmetic is exact up to the final division by 100.
\<close>

definition getStorageUsage :: "world \<Rightarrow> real" where
  "getStorageUsage w =
     (case slot w of
        None \<Rightarrow> 0
      | Some stored \<Rightarrow>
          if stored = [] then 0
          else of_int (round ((real (length stored) / 1024 / 1024) * 100)) / 100)"

text \<open>
  \<open>saveToLocalStorage\<close>; the argument \<open>savedAt\<close> is \<open>new Date().toISOString()\<close>.
\<close>

definition saveToLocalStorage :: "platform \<Rightarrow> string \<Rightarrow> world \<Rightarrow> world" where
  "saveToLocalStorage P savedAt w =
     (let data = JObj (collections_json (app w) @ [(''savedAt'', JStr savedAt)]);
          serialized = JSON_stringify P 0 data
      in case setItem_error P serialized of
           None \<Rightarrow> w\<lparr>slot := Some serialized\<rparr>
         | Some name \<Rightarrow>
             if name = ''QuotaExceededError''
             then showNotification StorageLimitExceeded ErrorToast w
             else showNotification ErrorSavingData ErrorToast w)"

text \<open>\<open>clearAllData\<close>; the argument is the answer to \<open>confirm\<close>.\<close>

definition clearAllData :: "bool \<Rightarrow> world \<Rightarrow> world" where
  "clearAllData confirmed w =
     (if confirmed
      then showNotification AllDataCleared SuccessToast
             (w\<lparr>slot := None,
                app := (app w)\<lparr>topwear := [], bottomwear := [], savedOutfits := [],
                               selectedTop := None, selectedBottom := None\<rparr>\<rparr>)
      else w)"

text \<open>
  A file from the file picker: its name, declared media type and byte size, and what
  reading it as a data URL gives (\<open>None\<close> when the \<open>FileReader\<close> reports an error).
\<close>

record image_file =
  f_name :: string
  f_type :: string
  f_size :: nat
  f_dataURL :: "string option"

definition fileToBase64 :: "image_file \<Rightarrow> string option" where
  "fileToBase64 f = f_dataURL f"

definition validateImageFile :: "image_file \<Rightarrow> world \<Rightarrow> bool \<times> world" where
  "validateImageFile f w =
     (let validTypes = [''image/jpeg'', ''image/png''] in
      if f_type f \<notin> set validTypes
      then (False, showNotification OnlyJpgAndPng ErrorToast w)
      else if f_size f > MAX_IMAGE_SIZE
      then (False, showNotification ImageTooLarge ErrorToast w)
      else (True, w))"

subsection \<open>Reading a parsed value back\<close>

text \<open>
  \<open>x || []\<close>, for \<open>x\<close> a property of a parsed value or \<open>undefined\<close> (\<open>None\<close>): the
  falsy values are \<open>undefined\<close>, \<open>null\<close>, \<open>false\<close>, \<open>0\<close> and the empty string.
\<close>

fun falsy :: "json \<Rightarrow> bool" where
  "falsy JNull = True"
| "falsy (JBool b) = (\<not> b)"
| "falsy (JNum n) = (n = 0)"
| "falsy (JStr s) = (s = [])"
| "falsy (JArr xs) = False"
| "falsy (JObj kvs) = False"

definition or_empty :: "json option \<Rightarrow> json" where
  "or_empty x = (case x of None \<Rightarrow> JArr [] | Some v \<Rightarrow> if falsy v then JArr [] else v)"

text \<open>
  \<open>data.k\<close> for a parsed \<open>data\<close> other than \<open>null\<close> and \<open>k\<close> one of \<open>topwear\<close>,
  \<open>bottomwear\<close>, \<open>savedOutfits\<close>, \<open>top\<close>, \<open>bottom\<close>: the value under the key, \<open>undefined\<close>
  when an object has no such key, and \<open>undefined\<close> on a number, string, boolean or
  array.
\<close>

fun property :: "json \<Rightarrow> string \<Rightarrow> json option" where
  "property (JObj kvs) k = map_of kvs k"
| "property v k = None"

text \<open>
  The three right-hand sides that \<open>loadFromLocalStorage\<close> and \<open>importWardrobe\<close> share:
  \<open>data.topwear || []\<close>, \<open>data.bottomwear || []\<close>, \<open>data.savedOutfits || []\<close>.
  \<open>None\<close>: \<open>data\<close> is \<open>null\<close> and the first property read throws a TypeError, before any
  assignment.
\<close>

definition read_collections :: "json \<Rightarrow> (json \<times> json \<times> json) option" where
  "read_collections data =
     (if data = JNull then None
      else Some (or_empty (property data ''topwear''),
                 or_empty (property data ''bottomwear''),
                 or_empty (property data ''savedOutfits'')))"

text \<open>
  The script assigns these values unchecked, so after a load or an import a collection
  holds whatever JSON value the text had under its key. \<open>untyped_world\<close> is the state
  with the three collections as JSON values; the garment objects allocated so far,
  the selections, the slot and the notifications are as in \<open>world\<close>.
\<close>

record untyped_world =
  u_objects :: "garment list"
  u_topwear :: json
  u_bottomwear :: json
  u_savedOutfits :: json
  u_selectedTop :: "ref option"
  u_selectedBottom :: "ref option"
  u_slot :: "string option"
  u_notifications :: "(message \<times> severity) list"

definition assign_collections :: "json \<times> json \<times> json \<Rightarrow> world \<Rightarrow> untyped_world" where
  "assign_collections c w =
     (case c of (t, b, s) \<Rightarrow>
        \<lparr>u_objects = objects (app w),
         u_topwear = t,
         u_bottomwear = b,
         u_savedOutfits = s,
         u_selectedTop = selectedTop (app w),
         u_selectedBottom = selectedBottom (app w),
         u_slot = slot w,
         u_notifications = notifications w\<rparr>)"

text \<open>
  \<open>saveToLocalStorage\<close> on such a state: \<open>JSON.stringify\<close> prints the values the
  collections hold.
\<close>

definition saveToLocalStorage_untyped :: "platform \<Rightarrow> string \<Rightarrow> untyped_world \<Rightarrow> untyped_world" where
  "saveToLocalStorage_untyped P savedAt u =
     (let data = JObj [(''topwear'', u_topwear u),
                       (''bottomwear'', u_bottomwear u),
                       (''savedOutfits'', u_savedOutfits u),
                       (''savedAt'', JStr savedAt)];
          serialized = JSON_stringify P 0 data
      in case setItem_error P serialized of
           None \<Rightarrow> u\<lparr>u_slot := Some serialized\<rparr>
         | Some name \<Rightarrow>
             if name = ''QuotaExceededError''
             then u\<lparr>u_notifications := u_notifications u @ [(StorageLimitExceeded, ErrorToast)]\<rparr>
             else u\<lparr>u_notifications := u_notifications u @ [(ErrorSavingData, ErrorToast)]\<rparr>)"

text \<open>
  Whether \<open>renderUI\<close> throws on such a state. \<open>renderTopwear\<close> and \<open>renderBottomwear\<close>
  return early when \<open>.length === 0\<close> and otherwise call \<open>.forEach\<close>, which only an array
  has; the callback reads \<open>item.id\<close>, which throws on \<open>null\<close>. \<open>renderSavedOutfits\<close> does
  the same and reads \<open>outfit.top.image\<close> and \<open>outfit.bottom.image\<close>, which throw when
  \<open>outfit\<close>, \<open>outfit.top\<close> or \<open>outfit.bottom\<close> is \<open>null\<close> or \<open>undefined\<close>. \<open>renderOutfit\<close> reads
  the selected garment objects only, and calls the first two again.
\<close>

fun collection_throws :: "(json \<Rightarrow> bool) \<Rightarrow> json \<Rightarrow> bool" where
  "collection_throws item_throws (JArr xs) = list_ex item_throws xs"
| "collection_throws item_throws (JObj kvs) = (map_of kvs ''length'' \<noteq> Some (JNum 0))"
| "collection_throws item_throws (JStr s) = (s \<noteq> [])"
| "collection_throws item_throws v = True"

definition garment_throws :: "json \<Rightarrow> bool" where
  "garment_throws item \<longleftrightarrow> item = JNull"

definition nullish :: "json option \<Rightarrow> bool" where
  "nullish x \<longleftrightarrow> x = None \<or> x = Some JNull"

definition outfit_throws :: "json \<Rightarrow> bool" where
  "outfit_throws outfit \<longleftrightarrow>
     outfit = JNull \<or> nullish (property outfit ''top'') \<or> nullish (property outfit ''bottom'')"

definition renderUI_throws :: "untyped_world \<Rightarrow> bool" where
  "renderUI_throws u \<longleftrightarrow>
     collection_throws garment_throws (u_topwear u) \<or>
     collection_throws garment_throws (u_bottomwear u) \<or>
     collection_throws outfit_throws (u_savedOutfits u)"

text \<open>
  The other operations of the script (\<open>push\<close>, \<open>filter\<close>, \<open>find\<close>, indexing) are modelled on
  collections that are arrays of garment objects and of outfits with the fields the
  script itself writes, in the order it writes them: these are the typed sequences of
  \<open>world\<close>. \<open>retype\<close> gives the state after a load or an import in that form
  when the assigned values have exactly that shape, allocating an object for every
  object of the text as \<open>JSON.parse\<close> does; the typed state then holds the same values,
  key for key. Every other value is kept as it is, since \<open>JSON.stringify\<close> prints an
  object with the keys it has, in the order it has them: the result is \<open>Untyped\<close>, with
  the state as the script has it, and the model does not follow the script further
  from there.
\<close>

datatype 'a typed = Typed 'a | Untyped untyped_world

fun the_num :: "json \<Rightarrow> int option" where
  "the_num (JNum n) = Some n"
| "the_num v = None"

fun the_str :: "json \<Rightarrow> string option" where
  "the_str (JStr s) = Some s"
| "the_str v = None"

fun the_link :: "json \<Rightarrow> string option option" where
  "the_link JNull = Some None"
| "the_link (JStr s) = Some (Some s)"
| "the_link v = None"

fun the_fields :: "json \<Rightarrow> string list \<Rightarrow> json list option" where
  "the_fields (JObj kvs) ks = (if map fst kvs = ks then Some (map snd kvs) else None)"
| "the_fields v ks = None"

definition garment_of_json :: "json \<Rightarrow> garment option" where
  "garment_of_json j = do {
     vs \<leftarrow> the_fields j [''id'', ''brand'', ''name'', ''image'', ''link'', ''source'', ''uploadedAt''];
     i \<leftarrow> the_num (vs ! 0);
     b \<leftarrow> the_str (vs ! 1);
     n \<leftarrow> the_str (vs ! 2);
     im \<leftarrow> the_str (vs ! 3);
     l \<leftarrow> the_link (vs ! 4);
     s \<leftarrow> the_str (vs ! 5);
     u \<leftarrow> the_str (vs ! 6);
     Some \<lparr>g_id = i, g_brand = b, g_name = n, g_image = im, g_link = l, g_source = s,
            g_uploadedAt = u\<rparr>
   }"

definition outfit_of_json :: "json \<Rightarrow> (int \<times> garment \<times> garment) option" where
  "outfit_of_json j = do {
     vs \<leftarrow> the_fields j [''id'', ''top'', ''bottom''];
     i \<leftarrow> the_num (vs ! 0);
     t \<leftarrow> garment_of_json (vs ! 1);
     b \<leftarrow> garment_of_json (vs ! 2);
     Some (i, t, b)
   }"

fun the_array :: "(json \<Rightarrow> 'a option) \<Rightarrow> json \<Rightarrow> 'a list option" where
  "the_array f (JArr xs) = those (map f xs)"
| "the_array f v = None"

definition typed_collections ::
    "json \<times> json \<times> json \<Rightarrow> (garment list \<times> garment list \<times> (int \<times> garment \<times> garment) list) option" where
  "typed_collections c =
     (case c of (t, b, s) \<Rightarrow> do {
        ts \<leftarrow> the_array garment_of_json t;
        bs \<leftarrow> the_array garment_of_json b;
        os \<leftarrow> the_array outfit_of_json s;
        Some (ts, bs, os)
      })"

text \<open>
  \<open>JSON.parse\<close> builds a fresh object for every object of the text, so an outfit read
  back gets garment objects of its own.
\<close>

fun alloc_outfits :: "(int \<times> garment \<times> garment) list \<Rightarrow> garment list \<Rightarrow> outfit list \<times> garment list" where
  "alloc_outfits [] h = ([], h)"
| "alloc_outfits ((i, t, b) # rest) h =
     (let (outs, h') = alloc_outfits rest (h @ [t, b])
      in (\<lparr>o_id = i, o_top = length h, o_bottom = length h + 1\<rparr> # outs, h'))"

definition install :: "garment list \<Rightarrow> garment list \<Rightarrow> (int \<times> garment \<times> garment) list \<Rightarrow> app_state \<Rightarrow> app_state" where
  "install ts bs os a =
     (let h0 = objects a;
          h1 = h0 @ ts;
          h2 = h1 @ bs;
          (outs, h3) = alloc_outfits os h2
      in a\<lparr>objects := h3,
            topwear := [length h0 ..< length h0 + length ts],
            bottomwear := [length h1 ..< length h1 + length bs],
            savedOutfits := outs\<rparr>)"

definition retype :: "untyped_world \<Rightarrow> world typed" where
  "retype u =
     (case typed_collections (u_topwear u, u_bottomwear u, u_savedOutfits u) of
        Some (ts, bs, os) \<Rightarrow>
          Typed \<lparr>app = install ts bs os
                         \<lparr>objects = u_objects u, topwear = [], bottomwear = [],
                          selectedTop = u_selectedTop u, selectedBottom = u_selectedBottom u,
                          savedOutfits = []\<rparr>,
                 slot = u_slot u,
                 notifications = u_notifications u\<rparr>
      | None \<Rightarrow> Untyped u)"

text \<open>
  \<open>loadFromLocalStorage\<close>, with its boolean result; an \<open>Untyped\<close> result stands for the
  result \<open>true\<close> in that state.
\<close>

definition loadFromLocalStorage :: "platform \<Rightarrow> world \<Rightarrow> (bool \<times> world) typed" where
  "loadFromLocalStorage P w =
     (case slot w of
        None \<Rightarrow> Typed (False, w)
      | Some stored \<Rightarrow>
          if stored = [] then Typed (False, w)
          else
            (case JSON_parse P stored of
               None \<Rightarrow> Typed (False, showNotification ErrorLoadingSavedData ErrorToast w)
             | Some data \<Rightarrow>
                 (case read_collections data of
                    None \<Rightarrow> Typed (False, showNotification ErrorLoadingSavedData ErrorToast w)
                  | Some c \<Rightarrow>
                      (case retype (assign_collections c w) of
                         Typed w' \<Rightarrow> Typed (True, w')
                       | Untyped u \<Rightarrow> Untyped u))))"

subsection \<open>Export and import\<close>

text \<open>
  \<open>exportWardrobe\<close>: the download (the number in its file name, and its text) and the
  state after. \<open>exportDate\<close> is \<open>new Date().toISOString()\<close>, \<open>now\<close> is \<open>Date.now()\<close>.
\<close>

definition exportWardrobe :: "platform \<Rightarrow> string \<Rightarrow> int \<Rightarrow> world \<Rightarrow> (int \<times> string) \<times> world" where
  "exportWardrobe P exportDate now w =
     (let config = JObj (collections_json (app w) @ [(''exportDate'', JStr exportDate)]);
          json = JSON_stringify P 2 config
      in ((now, json), showNotification WardrobeExported SuccessToast w))"

text \<open>
  \<open>importWardrobe\<close>: \<open>chosen\<close> is the text of the chosen file as the \<open>FileReader\<close> hands
  it to \<open>onload\<close>, \<open>None\<close> when no file was chosen or the read never completes. Inside
  the \<open>try\<close>: parse, the three assignments, \<open>saveToLocalStorage\<close>, \<open>renderUI\<close>, and the
  success message; whatever throws on the way ends in the \<open>catch\<close>, which shows the error
  and undoes nothing.
\<close>

definition importWardrobe :: "platform \<Rightarrow> string \<Rightarrow> string option \<Rightarrow> world \<Rightarrow> world typed" where
  "importWardrobe P savedAt chosen w =
     (case chosen of
        None \<Rightarrow> Typed w
      | Some result \<Rightarrow>
          (case JSON_parse P result of
             None \<Rightarrow> Typed (showNotification ErrorImportingConfig ErrorToast w)
           | Some config \<Rightarrow>
               (case read_collections config of
                  None \<Rightarrow> Typed (showNotification ErrorImportingConfig ErrorToast w)
                | Some c \<Rightarrow>
                    (let u1 = saveToLocalStorage_untyped P savedAt (assign_collections c w);
                         u2 = (if renderUI_throws u1
                               then u1\<lparr>u_notifications :=
                                         u_notifications u1 @ [(ErrorImportingConfig, ErrorToast)]\<rparr>
                               else u1\<lparr>u_notifications :=
                                         u_notifications u1 @ [(WardrobeImported, SuccessToast)]\<rparr>)
                     in retype u2))))"

subsection \<open>Item management\<close>

text \<open>
  \<open>app.topwear.push(newItem)\<close> when \<open>category === 'topwear'\<close>, else
  \<open>app.bottomwear.push(newItem)\<close>; the object literal is a new object.
\<close>

definition push_item :: "string \<Rightarrow> garment \<Rightarrow> app_state \<Rightarrow> app_state" where
  "push_item category newItem a =
     (let r = length (objects a);
          a' = a\<lparr>objects := objects a @ [newItem]\<rparr>
      in if category = ''topwear''
         then a'\<lparr>topwear := topwear a @ [r]\<rparr>
         else a'\<lparr>bottomwear := bottomwear a @ [r]\<rparr>)"

text \<open>The form \<open>addItem\<close> reads; the text inputs are the values after \<open>trim()\<close>.\<close>

record item_form =
  imageUpload :: "image_file option"
  brandInput :: string
  productNameInput :: string
  categorySelect :: string
  shoppingLinkInput :: string

definition addItem :: "platform \<Rightarrow> int \<Rightarrow> string \<Rightarrow> string \<Rightarrow> item_form \<Rightarrow> world \<Rightarrow> world" where
  "addItem P now uploadedAt savedAt form w =
     (case imageUpload form of
        None \<Rightarrow> showNotification FillRequiredFields ErrorToast w
      | Some imageFile \<Rightarrow>
          if brandInput form = [] \<or> productNameInput form = []
          then showNotification FillRequiredFields ErrorToast w
          else
            (case validateImageFile imageFile w of
               (False, w1) \<Rightarrow> w1
             | (True, w1) \<Rightarrow>
                 (case fileToBase64 imageFile of
                    None \<Rightarrow> showNotification ErrorProcessingImage ErrorToast w1
                  | Some base64Image \<Rightarrow>
                      (let newItem = \<lparr>g_id = now,
                                      g_brand = brandInput form,
                                      g_name = productNameInput form,
                                      g_image = base64Image,
                                      g_link = (if shoppingLinkInput form = [] then None
                                                else Some (shoppingLinkInput form)),
                                      g_source = ''local'',
                                      g_uploadedAt = uploadedAt\<rparr>;
                           w2 = w1\<lparr>app := push_item (categorySelect form) newItem (app w1)\<rparr>
                       in showNotification ItemAdded SuccessToast
                            (saveToLocalStorage P savedAt w2)))))"

text \<open>
  The loop of \<open>bulkImportImages\<close>, from index \<open>i\<close> on, over the files not yet visited,
  carrying the state and the two counters. \<open>Date_now i\<close> and \<open>toISOString i\<close> are the
  clock readings taken while file \<open>i\<close> is processed. \<open>file.name.split('.')[0]\<close> is the
  name up to its first dot.
\<close>

fun bulk_loop :: "(nat \<Rightarrow> int) \<Rightarrow> (nat \<Rightarrow> string) \<Rightarrow> string \<Rightarrow> nat \<Rightarrow> image_file list \<Rightarrow>
    world \<times> nat \<times> nat \<Rightarrow> world \<times> nat \<times> nat" where
  "bulk_loop Date_now toISOString category i [] st = st"
| "bulk_loop Date_now toISOString category i (f # files) (w, successCount, failCount) =
     (case validateImageFile f w of
        (False, w1) \<Rightarrow>
          bulk_loop Date_now toISOString category (i + 1) files (w1, successCount, failCount + 1)
      | (True, w1) \<Rightarrow>
          (case fileToBase64 f of
             None \<Rightarrow>
               bulk_loop Date_now toISOString category (i + 1) files
                 (w1, successCount, failCount + 1)
           | Some base64Image \<Rightarrow>
               (let fileName = takeWhile (\<lambda>c. c \<noteq> CHR ''.'') (f_name f);
                    newItem = \<lparr>g_id = Date_now i + int i,
                                g_brand = ''Imported'',
                                g_name = fileName,
                                g_image = base64Image,
                                g_link = None,
                                g_source = ''local'',
                                g_uploadedAt = toISOString i\<rparr>;
                    w2 = w1\<lparr>app := push_item category newItem (app w1)\<rparr>
                in bulk_loop Date_now toISOString category (i + 1) files
                     (w2, successCount + 1, failCount))))"

definition bulkImportImages :: "platform \<Rightarrow> (nat \<Rightarrow> int) \<Rightarrow> (nat \<Rightarrow> string) \<Rightarrow> string \<Rightarrow>
    image_file list \<Rightarrow> string \<Rightarrow> world \<Rightarrow> world" where
  "bulkImportImages P Date_now toISOString savedAt files category w =
     (if length files = 0
      then showNotification SelectAtLeastOneImage ErrorToast w
      else
        (let (w1, successCount, failCount) =
               bulk_loop Date_now toISOString category 0 files (w, 0, 0);
             w2 = saveToLocalStorage P savedAt w1;
             message = (if failCount > 0
                        then ImportedWithFailures successCount failCount
                        else SuccessfullyImported successCount)
         in showNotification message SuccessToast w2))"

subsection \<open>Outfits\<close>

text \<open>
  \<open>xs[Math.floor(Math.random() * xs.length)]\<close>, \<open>random\<close> being the draw of
  \<open>Math.random()\<close> and the product the platform's; an index outside the array reads
  \<open>undefined\<close>, which every test of the script treats like \<open>null\<close>.
\<close>

definition pick :: "platform \<Rightarrow> real \<Rightarrow> ref list \<Rightarrow> ref option" where
  "pick P random xs =
     (let i = \<lfloor>Number_times P random (real (length xs))\<rfloor>
      in if 0 \<le> i \<and> nat i < length xs then Some (xs ! nat i) else None)"

definition shuffleOutfit :: "platform \<Rightarrow> real \<Rightarrow> real \<Rightarrow> world \<Rightarrow> world" where
  "shuffleOutfit P random1 random2 w =
     (if length (topwear (app w)) = 0 \<or> length (bottomwear (app w)) = 0
      then showNotification AddTopAndBottomFirst ErrorToast w
      else w\<lparr>app := (app w)\<lparr>selectedTop := pick P random1 (topwear (app w)),
                             selectedBottom := pick P random2 (bottomwear (app w))\<rparr>\<rparr>)"

text \<open>\<open>saveOutfit\<close>; \<open>now\<close> is \<open>Date.now()\<close>.\<close>

definition saveOutfit :: "platform \<Rightarrow> int \<Rightarrow> string \<Rightarrow> world \<Rightarrow> world" where
  "saveOutfit P now savedAt w =
     (case (selectedTop (app w), selectedBottom (app w)) of
        (Some t, Some b) \<Rightarrow>
          (let outfit = \<lparr>o_id = now, o_top = t, o_bottom = b\<rparr>;
               w1 = w\<lparr>app := (app w)\<lparr>savedOutfits := savedOutfits (app w) @ [outfit]\<rparr>\<rparr>
           in showNotification OutfitSaved SuccessToast (saveToLocalStorage P savedAt w1))
      | _ \<Rightarrow> showNotification SelectCompleteOutfit ErrorToast w)"

definition removeOutfit :: "platform \<Rightarrow> string \<Rightarrow> int \<Rightarrow> world \<Rightarrow> world" where
  "removeOutfit P savedAt outfitId w =
     saveToLocalStorage P savedAt
       (w\<lparr>app := (app w)\<lparr>savedOutfits := filter (\<lambda>x. o_id x \<noteq> outfitId) (savedOutfits (app w))\<rparr>\<rparr>)"

definition loadSavedOutfit :: "int \<Rightarrow> world \<Rightarrow> world" where
  "loadSavedOutfit outfitId w =
     (case find (\<lambda>x. o_id x = outfitId) (savedOutfits (app w)) of
        Some outfit \<Rightarrow>
          w\<lparr>app := (app w)\<lparr>selectedTop := Some (o_top outfit),
                           selectedBottom := Some (o_bottom outfit)\<rparr>\<rparr>
      | None \<Rightarrow> w)"

text \<open>
  The click handlers that \<open>renderTopwear\<close> and \<open>renderBottomwear\<close> attach to the
  thumbnail of the item at position \<open>index\<close>: \<open>app.selectedTop = item\<close>.
\<close>

definition clickTop :: "nat \<Rightarrow> world \<Rightarrow> world" where
  "clickTop index w =
     (if index < length (topwear (app w))
      then w\<lparr>app := (app w)\<lparr>selectedTop := Some (topwear (app w) ! index)\<rparr>\<rparr>
      else w)"

definition clickBottom :: "nat \<Rightarrow> world \<Rightarrow> world" where
  "clickBottom index w =
     (if index < length (bottomwear (app w))
      then w\<lparr>app := (app w)\<lparr>selectedBottom := Some (bottomwear (app w) ! index)\<rparr>\<rparr>
      else w)"

subsection \<open>The script as a whole\<close>

text \<open>
  Everything that can happen to the state: the page's load handler, the listeners the
  script registers, and the handlers its rendering attaches. Each event carries what
  the handler reads from outside (clock, form, files, random draws, the user's answer).
\<close>

datatype event =
    WindowLoad
  | AddItemClick int string string item_form
  | BulkImportClick "nat \<Rightarrow> int" "nat \<Rightarrow> string" string "image_file list" string
  | ShuffleClick real real
  | SaveOutfitClick int string
  | RemoveOutfitClick string int
  | SavedOutfitClick int
  | TopClick nat
  | BottomClick nat
  | ExportClick string int
  | ImportChosen string "string option"
  | ClearDataClick bool

fun handle :: "platform \<Rightarrow> event \<Rightarrow> world \<Rightarrow> world typed" where
  "handle P WindowLoad w =
     (case loadFromLocalStorage P w of Typed (ok, w') \<Rightarrow> Typed w' | Untyped u \<Rightarrow> Untyped u)"
| "handle P (AddItemClick now uploadedAt savedAt form) w =
     Typed (addItem P now uploadedAt savedAt form w)"
| "handle P (BulkImportClick Date_now toISOString savedAt files category) w =
     Typed (bulkImportImages P Date_now toISOString savedAt files category w)"
| "handle P (ShuffleClick random1 random2) w = Typed (shuffleOutfit P random1 random2 w)"
| "handle P (SaveOutfitClick now savedAt) w = Typed (saveOutfit P now savedAt w)"
| "handle P (RemoveOutfitClick savedAt outfitId) w = Typed (removeOutfit P savedAt outfitId w)"
| "handle P (SavedOutfitClick outfitId) w = Typed (loadSavedOutfit outfitId w)"
| "handle P (TopClick index) w = Typed (clickTop index w)"
| "handle P (BottomClick index) w = Typed (clickBottom index w)"
| "handle P (ExportClick exportDate now) w = Typed (snd (exportWardrobe P exportDate now w))"
| "handle P (ImportChosen savedAt chosen) w = importWardrobe P savedAt chosen w"
| "handle P (ClearDataClick confirmed) w = Typed (clearAllData confirmed w)"

fun run :: "platform \<Rightarrow> event list \<Rightarrow> world \<Rightarrow> world typed" where
  "run P [] w = Typed w"
| "run P (e # es) w = (case handle P e w of Typed w' \<Rightarrow> run P es w' | Untyped u \<Rightarrow> Untyped u)"

text \<open>
  The events that cannot take the outfit with id \<open>outfitId\<close> out of \<open>savedOutfits\<close>. The
  others are the ones that remove it or replace the whole list: \<open>removeOutfit\<close> with that
  id, a confirmed \<open>clearAllData\<close>, the load at page start, and an import whose text
  parses to something other than \<open>null\<close>.
\<close>

fun keeps_outfit :: "platform \<Rightarrow> int \<Rightarrow> event \<Rightarrow> bool" where
  "keeps_outfit P outfitId WindowLoad = False"
| "keeps_outfit P outfitId (RemoveOutfitClick savedAt removed) = (removed \<noteq> outfitId)"
| "keeps_outfit P outfitId (ClearDataClick confirmed) = (\<not> confirmed)"
| "keeps_outfit P outfitId (ImportChosen savedAt chosen) =
     (case chosen of
        None \<Rightarrow> True
      | Some result \<Rightarrow> JSON_parse P result = None \<or> JSON_parse P result = Some JNull)"
| "keeps_outfit P outfitId e = True"

subsection \<open>What a batch adds\<close>

text \<open>
  The files of a batch that get through: the declared type and the size pass
  \<open>validateImageFile\<close> and the read succeeds. \<open>batch_items\<close> lists the objects the
  loop of \<open>bulkImportImages\<close> builds for them, file \<open>j\<close> of the batch being read at
  clock \<open>Date_now j\<close>, when the first of \<open>files\<close> has index \<open>i\<close>.
\<close>

definition accepted :: "image_file \<Rightarrow> bool" where
  "accepted f \<longleftrightarrow>
     (f_type f = ''image/jpeg'' \<or> f_type f = ''image/png'') \<and> f_size f \<le> MAX_IMAGE_SIZE \<and>
     fileToBase64 f \<noteq> None"

definition batch_item :: "(nat \<Rightarrow> int) \<Rightarrow> (nat \<Rightarrow> string) \<Rightarrow> nat \<times> image_file \<Rightarrow> garment" where
  "batch_item Date_now toISOString p =
     (case p of (j, f) \<Rightarrow>
        \<lparr>g_id = Date_now j + int j,
         g_brand = ''Imported'',
         g_name = takeWhile (\<lambda>c. c \<noteq> CHR ''.'') (f_name f),
         g_image = the (fileToBase64 f),
         g_link = None,
         g_source = ''local'',
         g_uploadedAt = toISOString j\<rparr>)"

definition batch_items :: "(nat \<Rightarrow> int) \<Rightarrow> (nat \<Rightarrow> string) \<Rightarrow> nat \<Rightarrow> image_file list \<Rightarrow> garment list" where
  "batch_items Date_now toISOString i files =
     map (batch_item Date_now toISOString)
       (filter (\<lambda>p. accepted (snd p)) (zip [i ..< i + length files] files))"

subsection \<open>What the aggregate holds\<close>




subsection \<open>Sample states\<close>

definition shirt :: garment where
  "shirt = \<lparr>g_id = 1700000000000, g_brand = ''Acme'', g_name = ''shirt'',
            g_image = ''data:image/png;base64,AAAA'', g_link = None, g_source = ''local'',
            g_uploadedAt = ''2024-01-01T10:00:00.000Z''\<rparr>"

definition jeans :: garment where
  "jeans = \<lparr>g_id = 1700000000500, g_brand = ''Denim Co'', g_name = ''jeans'',
            g_image = ''data:image/jpeg;base64,BBBB'', g_link = Some ''https://example.com/jeans'',
            g_source = ''local'', g_uploadedAt = ''2024-01-01T10:00:01.000Z''\<rparr>"

definition sample_app :: app_state where
  "sample_app = \<lparr>objects = [shirt, jeans], topwear = [0], bottomwear = [1],
                 selectedTop = Some 0, selectedBottom = Some 1, savedOutfits = []\<rparr>"

definition sample_world :: world where
  "sample_world = \<lparr>app = sample_app, slot = None, notifications = []\<rparr>"

definition empty_world :: world where
  "empty_world = \<lparr>app = \<lparr>objects = [], topwear = [], bottomwear = [], selectedTop = None,
                          selectedBottom = None, savedOutfits = []\<rparr>,
                  slot = None, notifications = []\<rparr>"

text \<open>
  A stand-in platform for the sample runs: it prints the one document \<open>doc\<close> as a fixed
  text and reads that text back, rejects every other text, answers every \<open>setItem\<close>
  with \<open>err\<close>, and multiplies exactly.
\<close>

definition stub_platform :: "json \<Rightarrow> string option \<Rightarrow> platform" where
  "stub_platform doc err =
     \<lparr>JSON_parse = (\<lambda>s. if s = ''{doc}'' then Some doc else None),
      JSON_stringify = (\<lambda>n v. if v = doc then ''{doc}'' else ''{other}''),
      setItem_error = (\<lambda>s. err),
      Number_times = (\<lambda>x y. x * y)\<rparr>"


text \<open>
  A stand-in platform whose product rounds as doubles do at one point: the draw
  \<open>0.5714285714285714\<close> times 7 gives 4.
\<close>

definition rounding_platform :: platform where
  "rounding_platform =
     \<lparr>JSON_parse = (\<lambda>s. None),
      JSON_stringify = (\<lambda>n v. ''{other}''),
      setItem_error = (\<lambda>s. None),
      Number_times = (\<lambda>x y. if x = 5714285714285714 / 10000000000000000 \<and> y = 7 then 4
                             else x * y)\<rparr>"

definition png_file :: image_file where
  "png_file = \<lparr>f_name = ''coat.winter.png'', f_type = ''image/png'', f_size = 2048,
               f_dataURL = Some ''data:image/png;base64,CCCC''\<rparr>"

definition gif_file :: image_file where
  "gif_file = \<lparr>f_name = ''anim.gif'', f_type = ''image/gif'', f_size = 2048,
               f_dataURL = Some ''data:image/gif;base64,DDDD''\<rparr>"

definition unreadable_file :: image_file where
  "unreadable_file = \<lparr>f_name = ''broken.jpg'', f_type = ''image/jpeg'', f_size = 4096,
                      f_dataURL = None\<rparr>"

text \<open>A clock that stands still for a whole batch, and the time stamp it prints.\<close>

definition still_clock :: "nat \<Rightarrow> int" where
  "still_clock i = 1700000003000"

definition still_stamp :: "nat \<Rightarrow> string" where
  "still_stamp i = ''2024-01-04T09:00:00.000Z''"

definition polo :: garment where
  "polo = \<lparr>g_id = 1700000000900, g_brand = ''Acme'', g_name = ''polo'',
           g_image = ''data:image/png;base64,EEEE'', g_link = None, g_source = ''local'',
           g_uploadedAt = ''2024-01-01T10:00:02.000Z''\<rparr>"

definition closet_world :: world where
  "closet_world = \<lparr>app = \<lparr>objects = [shirt, jeans, polo], topwear = [0, 2], bottomwear = [1],
                           selectedTop = None, selectedBottom = None, savedOutfits = []\<rparr>,
                   slot = None, notifications = []\<rparr>"


definition rack_world :: world where
  "rack_world = \<lparr>app = \<lparr>objects = [shirt, jeans, polo, shirt, polo, shirt, polo, shirt],
                         topwear = [0, 2, 3, 4, 5, 6, 7], bottomwear = [1],
                         selectedTop = None, selectedBottom = None, savedOutfits = []\<rparr>,
                 slot = None, notifications = []\<rparr>"

section \<open>Properties\<close>

subsection \<open>Notifications and saving leave the aggregate alone\<close>

lemma showNotification_app [simp]: "app (showNotification m t w) = app w"
  by (simp add: showNotification_def)

lemma showNotification_slot [simp]: "slot (showNotification m t w) = slot w"
  by (simp add: showNotification_def)

lemma showNotification_notifications [simp]:
  "notifications (showNotification m t w) = notifications w @ [(m, t)]"
  by (simp add: showNotification_def)

lemma saveToLocalStorage_app [simp]: "app (saveToLocalStorage P savedAt w) = app w"
  by (simp add: saveToLocalStorage_def Let_def split: option.splits)

subsection \<open>Saving\<close>

text \<open>
  Claim C3. When \<open>setItem\<close> throws, \<open>saveToLocalStorage\<close> reports exactly one of two
  messages: the free-up-space message when the exception is named
  \<open>QuotaExceededError\<close>, the generic message for any other name; nothing else changes.
  Whatever the outcome of the write, the aggregate in memory after the save is the one
  before it. So a mutation made before the save stays: when every write fails,
  \<open>saveOutfit\<close> still appends the outfit in memory, and only the slot keeps its old
  content.
\<close>

theorem saveToLocalStorage_failure_kinds:
  "(setItem_error P (JSON_stringify P 0
       (JObj (collections_json (app w) @ [(''savedAt'', JStr savedAt)]))) = Some name \<longrightarrow>
     saveToLocalStorage P savedAt w =
       showNotification
         (if name = ''QuotaExceededError'' then StorageLimitExceeded else ErrorSavingData)
         ErrorToast w)
   \<and> app (saveToLocalStorage P savedAt w) = app w
   \<and> ((\<forall>s. setItem_error P s = Some name) \<and> selectedTop (app w) = Some t \<and>
        selectedBottom (app w) = Some b \<longrightarrow>
        (let w' = saveOutfit P now savedAt w in
           savedOutfits (app w') = savedOutfits (app w) @ [\<lparr>o_id = now, o_top = t, o_bottom = b\<rparr>]
           \<and> slot w' = slot w))"
  by (auto simp: saveToLocalStorage_def showNotification_def saveOutfit_def Let_def
           split: option.splits)

theorem saveToLocalStorage_failure_kinds_witness:
  "saveToLocalStorage (stub_platform JNull (Some ''QuotaExceededError'')) ''2024-01-02'' sample_world
     = showNotification StorageLimitExceeded ErrorToast sample_world
   \<and> saveToLocalStorage (stub_platform JNull (Some ''SecurityError'')) ''2024-01-02'' sample_world
     = showNotification ErrorSavingData ErrorToast sample_world
   \<and> savedOutfits (app (saveOutfit (stub_platform JNull (Some ''SecurityError'')) 1700000001000
                          ''2024-01-02'' sample_world))
     = [\<lparr>o_id = 1700000001000, o_top = 0, o_bottom = 1\<rparr>]
   \<and> slot (saveOutfit (stub_platform JNull (Some ''SecurityError'')) 1700000001000
              ''2024-01-02'' sample_world) = None"
proof -
  have q: "\<forall>s. setItem_error (stub_platform JNull (Some ''QuotaExceededError'')) s
             = Some ''QuotaExceededError''"
    by (simp add: stub_platform_def)
  have u: "\<forall>s. setItem_error (stub_platform JNull (Some ''SecurityError'')) s
             = Some ''SecurityError''"
    by (simp add: stub_platform_def)
  have sel: "selectedTop (app sample_world) = Some 0 \<and> selectedBottom (app sample_world) = Some 1
             \<and> savedOutfits (app sample_world) = [] \<and> slot sample_world = None"
    by (simp add: sample_world_def sample_app_def)
  from q saveToLocalStorage_failure_kinds
         [where P = "stub_platform JNull (Some ''QuotaExceededError'')" and w = sample_world
            and savedAt = "''2024-01-02''" and name = "''QuotaExceededError''"]
  have r1: "saveToLocalStorage (stub_platform JNull (Some ''QuotaExceededError'')) ''2024-01-02''
              sample_world = showNotification StorageLimitExceeded ErrorToast sample_world"
    by simp
  from u sel saveToLocalStorage_failure_kinds
         [where P = "stub_platform JNull (Some ''SecurityError'')" and w = sample_world
            and savedAt = "''2024-01-02''" and name = "''SecurityError''" and t = 0 and b = 1
            and now = 1700000001000]
  have r2: "saveToLocalStorage (stub_platform JNull (Some ''SecurityError'')) ''2024-01-02''
              sample_world = showNotification ErrorSavingData ErrorToast sample_world
            \<and> savedOutfits (app (saveOutfit (stub_platform JNull (Some ''SecurityError''))
                 1700000001000 ''2024-01-02'' sample_world))
               = [\<lparr>o_id = 1700000001000, o_top = 0, o_bottom = 1\<rparr>]
            \<and> slot (saveOutfit (stub_platform JNull (Some ''SecurityError'')) 1700000001000
                 ''2024-01-02'' sample_world) = None"
    by (simp add: Let_def)
  from r1 r2 show ?thesis by blast
qed

subsection \<open>Loading\<close>

lemma assign_collections_fields [simp]:
  "u_objects (assign_collections c w) = objects (app w)"
  "u_topwear (assign_collections c w) = fst c"
  "u_bottomwear (assign_collections c w) = fst (snd c)"
  "u_savedOutfits (assign_collections c w) = snd (snd c)"
  "u_selectedTop (assign_collections c w) = selectedTop (app w)"
  "u_selectedBottom (assign_collections c w) = selectedBottom (app w)"
  "u_slot (assign_collections c w) = slot w"
  "u_notifications (assign_collections c w) = notifications w"
  by (simp_all add: assign_collections_def split_beta)

lemma retype_Typed:
  assumes "retype u = Typed w'"
  shows "\<exists>ts bs os.
           typed_collections (u_topwear u, u_bottomwear u, u_savedOutfits u) = Some (ts, bs, os) \<and>
           w' = \<lparr>app = install ts bs os
                          \<lparr>objects = u_objects u, topwear = [], bottomwear = [],
                           selectedTop = u_selectedTop u, selectedBottom = u_selectedBottom u,
                           savedOutfits = []\<rparr>,
                  slot = u_slot u, notifications = u_notifications u\<rparr>"
proof (cases "typed_collections (u_topwear u, u_bottomwear u, u_savedOutfits u)")
  case None
  with assms show ?thesis by (simp add: retype_def)
next
  case (Some c)
  obtain ts bs os where c: "c = (ts, bs, os)" by (cases c)
  from assms Some c have "w' = \<lparr>app = install ts bs os
                          \<lparr>objects = u_objects u, topwear = [], bottomwear = [],
                           selectedTop = u_selectedTop u, selectedBottom = u_selectedBottom u,
                           savedOutfits = []\<rparr>,
                  slot = u_slot u, notifications = u_notifications u\<rparr>"
    by (simp add: retype_def)
  with Some c show ?thesis by simp
qed

lemma retype_slot: "retype u = Typed w' \<Longrightarrow> slot w' = u_slot u"
  by (drule retype_Typed) auto

text \<open>
  Claim C4. \<open>loadFromLocalStorage\<close> returns \<open>false\<close> when there is no slot, and when
  the stored text does not parse (\<open>JSON.parse\<close> throws, or returns \<open>null\<close> so that the
  first property read throws); in the second case it reports the load error. No load
  ever changes the slot, and a load that returns \<open>false\<close> leaves the aggregate in
  memory as it was.
\<close>

theorem loadFromLocalStorage_no_data:
  "(slot w = None \<longrightarrow> loadFromLocalStorage P w = Typed (False, w))
   \<and> (slot w = Some stored \<and> stored \<noteq> [] \<and>
        (JSON_parse P stored = None \<or> JSON_parse P stored = Some JNull) \<longrightarrow>
        loadFromLocalStorage P w =
          Typed (False, showNotification ErrorLoadingSavedData ErrorToast w))
   \<and> (\<forall>ok w'. loadFromLocalStorage P w = Typed (ok, w') \<longrightarrow> slot w' = slot w)
   \<and> (\<forall>w'. loadFromLocalStorage P w = Typed (False, w') \<longrightarrow> app w' = app w)"
proof -
  have null: "read_collections JNull = None"
    by (simp add: read_collections_def)
  have a: "slot w = None \<longrightarrow> loadFromLocalStorage P w = Typed (False, w)"
    by (simp add: loadFromLocalStorage_def)
  have b: "slot w = Some stored \<and> stored \<noteq> [] \<and>
        (JSON_parse P stored = None \<or> JSON_parse P stored = Some JNull) \<longrightarrow>
        loadFromLocalStorage P w =
          Typed (False, showNotification ErrorLoadingSavedData ErrorToast w)"
    using null by (auto simp: loadFromLocalStorage_def)
  have c: "\<forall>ok w'. loadFromLocalStorage P w = Typed (ok, w') \<longrightarrow> slot w' = slot w"
    by (auto simp: loadFromLocalStorage_def split: option.splits typed.splits if_splits
             dest!: retype_slot)
  have d: "\<forall>w'. loadFromLocalStorage P w = Typed (False, w') \<longrightarrow> app w' = app w"
    by (auto simp: loadFromLocalStorage_def split: option.splits typed.splits if_splits)
  from a b c d show ?thesis by blast
qed

theorem loadFromLocalStorage_no_data_witness:
  "slot empty_world = None
   \<and> loadFromLocalStorage (stub_platform JNull None) empty_world = Typed (False, empty_world)
   \<and> JSON_parse (stub_platform JNull None) ''{oops'' = None
   \<and> loadFromLocalStorage (stub_platform JNull None) (empty_world\<lparr>slot := Some ''{oops''\<rparr>)
       = Typed (False, showNotification ErrorLoadingSavedData ErrorToast
                         (empty_world\<lparr>slot := Some ''{oops''\<rparr>))"
proof -
  have h1: "slot empty_world = None"
    by (simp add: empty_world_def)
  have h2: "JSON_parse (stub_platform JNull None) ''{oops'' = None"
    by (simp add: stub_platform_def)
  have h3: "slot (empty_world\<lparr>slot := Some ''{oops''\<rparr>) = Some ''{oops'' \<and> ''{oops'' \<noteq> []"
    by simp
  from h1 loadFromLocalStorage_no_data [where w = empty_world and P = "stub_platform JNull None"]
  have r1: "loadFromLocalStorage (stub_platform JNull None) empty_world
              = Typed (False, empty_world)"
    by blast
  from h2 h3 loadFromLocalStorage_no_data
               [where w = "empty_world\<lparr>slot := Some ''{oops''\<rparr>"
                  and P = "stub_platform JNull None" and stored = "''{oops''"]
  have r2: "loadFromLocalStorage (stub_platform JNull None) (empty_world\<lparr>slot := Some ''{oops''\<rparr>)
       = Typed (False, showNotification ErrorLoadingSavedData ErrorToast
                         (empty_world\<lparr>slot := Some ''{oops''\<rparr>))"
    by blast
  from h1 h2 r1 r2 show ?thesis by blast
qed

subsection \<open>Usage\<close>

lemma usage_nonempty:
  "slot w = Some stored \<Longrightarrow> stored \<noteq> [] \<Longrightarrow>
   getStorageUsage w = of_int (round (real (length stored) / 1024 / 1024 * 100)) / 100"
  by (simp add: getStorageUsage_def)

lemma round_hundredths_close: "\<bar>real_of_int (round (x * 100)) / 100 - x\<bar> \<le> 1 / 200"
  for x :: real
proof -
  have "\<bar>real_of_int (round (x * 100)) - x * 100\<bar> \<le> 1 / 2"
    by (rule of_int_round_abs_le)
  then show ?thesis by (simp add: abs_le_iff field_simps)
qed

text \<open>
  Claim C5. With a text of \<open>n\<close> characters in the slot, \<open>getStorageUsage\<close> returns a
  whole number of hundredths that lies within 0.005 of \<open>n / 1024 / 1024\<close>: that quotient
  rounded to the nearest 0.01. For 2,097,152 characters it is 2, for 1,572,864
  characters it is 1.5.
\<close>

theorem getStorageUsage_rounds_mebibytes:
  "slot w = Some stored \<longrightarrow>
     (\<exists>n::int. getStorageUsage w = of_int n / 100)
     \<and> \<bar>getStorageUsage w - real (length stored) / 1024 / 1024\<bar> \<le> 1 / 200
     \<and> (length stored = 2097152 \<longrightarrow> getStorageUsage w = 2)
     \<and> (length stored = 1572864 \<longrightarrow> getStorageUsage w = 3 / 2)"
proof (cases "stored = []")
  case True
  then show ?thesis by (simp add: getStorageUsage_def)
next
  case False
  show ?thesis
  proof
    assume s: "slot w = Some stored"
    note u = usage_nonempty [OF s False]
    have a: "\<exists>n::int. getStorageUsage w = of_int n / 100"
      unfolding u by blast
    have b: "\<bar>getStorageUsage w - real (length stored) / 1024 / 1024\<bar> \<le> 1 / 200"
      unfolding u by (rule round_hundredths_close)
    have c: "length stored = 2097152 \<longrightarrow> getStorageUsage w = 2"
      unfolding u by simp
    have d: "length stored = 1572864 \<longrightarrow> getStorageUsage w = 3 / 2"
      unfolding u by simp
    from a b c d
    show "(\<exists>n::int. getStorageUsage w = of_int n / 100)
     \<and> \<bar>getStorageUsage w - real (length stored) / 1024 / 1024\<bar> \<le> 1 / 200
     \<and> (length stored = 2097152 \<longrightarrow> getStorageUsage w = 2)
     \<and> (length stored = 1572864 \<longrightarrow> getStorageUsage w = 3 / 2)"
      by blast
  qed
qed

theorem getStorageUsage_rounds_mebibytes_witness:
  "length (replicate 2097152 (CHR ''x'')) = 2097152
   \<and> getStorageUsage (empty_world\<lparr>slot := Some (replicate 2097152 (CHR ''x''))\<rparr>) = 2
   \<and> length (replicate 1572864 (CHR ''x'')) = 1572864
   \<and> getStorageUsage (empty_world\<lparr>slot := Some (replicate 1572864 (CHR ''x''))\<rparr>) = 3 / 2"
  using getStorageUsage_rounds_mebibytes
          [where w = "empty_world\<lparr>slot := Some (replicate 2097152 (CHR ''x''))\<rparr>"
             and stored = "replicate 2097152 (CHR ''x'')"]
        getStorageUsage_rounds_mebibytes
          [where w = "empty_world\<lparr>slot := Some (replicate 1572864 (CHR ''x''))\<rparr>"
             and stored = "replicate 1572864 (CHR ''x'')"]
  by simp

subsection \<open>Clearing\<close>

text \<open>
  Claim C10. A confirmed \<open>clearAllData\<close> removes the slot and empties the aggregate in
  memory: the three collections become empty and both selections \<open>null\<close> (and the
  success message is shown). A declined one changes nothing at all.
\<close>

theorem clearAllData_confirmed_or_declined:
  "(let w' = clearAllData True w in
      slot w' = None \<and> topwear (app w') = [] \<and> bottomwear (app w') = [] \<and>
      savedOutfits (app w') = [] \<and> selectedTop (app w') = None \<and>
      selectedBottom (app w') = None \<and>
      notifications w' = notifications w @ [(AllDataCleared, SuccessToast)])
   \<and> clearAllData False w = w"
  by (simp add: clearAllData_def showNotification_def Let_def)

subsection \<open>Validation\<close>

text \<open>
  Claim C9. \<open>validateImageFile\<close> accepts a file exactly when its declared type is
  \<open>image/jpeg\<close> or \<open>image/png\<close> and its size is at most 5 * 1024 * 1024 bytes. An
  accepted file changes nothing; a rejected one only adds an error notification. The
  verdict does not look at the file's name or content. Both callers validate before
  they read the file: on a rejected file the bulk loop only counts a failure and moves
  on, and \<open>addItem\<close> stops, neither having added an item or written the slot.
\<close>

theorem validateImageFile_accepts_iff:
  "(fst (validateImageFile f w) \<longleftrightarrow>
      (f_type f = ''image/jpeg'' \<or> f_type f = ''image/png'') \<and> f_size f \<le> 5 * 1024 * 1024)
   \<and> (fst (validateImageFile f w) \<longrightarrow> snd (validateImageFile f w) = w)
   \<and> (\<not> fst (validateImageFile f w) \<longrightarrow>
        (\<exists>m. snd (validateImageFile f w) = showNotification m ErrorToast w))
   \<and> validateImageFile (f\<lparr>f_name := n, f_dataURL := d\<rparr>) w = validateImageFile f w
   \<and> (\<not> fst (validateImageFile f w) \<longrightarrow>
        bulk_loop Date_now toISOString category i (f # files) (w, s, k) =
        bulk_loop Date_now toISOString category (i + 1) files
          (snd (validateImageFile f w), s, k + 1))
   \<and> (\<not> fst (validateImageFile f w) \<and> imageUpload form = Some f \<and>
        brandInput form \<noteq> [] \<and> productNameInput form \<noteq> [] \<longrightarrow>
        addItem P now uploadedAt savedAt form w = snd (validateImageFile f w))"
  by (auto simp: validateImageFile_def MAX_IMAGE_SIZE_def addItem_def Let_def)

theorem validateImageFile_accepts_iff_witness:
  "fst (validateImageFile png_file sample_world)
   \<and> snd (validateImageFile png_file sample_world) = sample_world
   \<and> \<not> fst (validateImageFile gif_file sample_world)
   \<and> (\<exists>m. snd (validateImageFile gif_file sample_world)
            = showNotification m ErrorToast sample_world)
   \<and> addItem (stub_platform JNull None) 1700000002000 ''2024-01-03'' ''2024-01-03''
        \<lparr>imageUpload = Some gif_file, brandInput = ''Acme'', productNameInput = ''hat'',
          categorySelect = ''topwear'', shoppingLinkInput = []\<rparr> sample_world
       = snd (validateImageFile gif_file sample_world)"
proof -
  have a: "f_type png_file = ''image/png'' \<and> f_size png_file \<le> 5 * 1024 * 1024"
    by (simp add: png_file_def)
  have b: "f_type gif_file \<noteq> ''image/jpeg'' \<and> f_type gif_file \<noteq> ''image/png''"
    by (simp add: gif_file_def)
  from a validateImageFile_accepts_iff [where f = png_file and w = sample_world]
  have r1: "fst (validateImageFile png_file sample_world)
            \<and> snd (validateImageFile png_file sample_world) = sample_world"
    by blast
  from b validateImageFile_accepts_iff [where f = gif_file and w = sample_world]
  have r2: "\<not> fst (validateImageFile gif_file sample_world)"
    by blast
  from r2 validateImageFile_accepts_iff [where f = gif_file and w = sample_world
      and form = "\<lparr>imageUpload = Some gif_file, brandInput = ''Acme'', productNameInput = ''hat'',
          categorySelect = ''topwear'', shoppingLinkInput = []\<rparr>"
      and P = "stub_platform JNull None" and now = 1700000002000
      and uploadedAt = "''2024-01-03''" and savedAt = "''2024-01-03''"]
  have r3: "(\<exists>m. snd (validateImageFile gif_file sample_world)
            = showNotification m ErrorToast sample_world)
   \<and> addItem (stub_platform JNull None) 1700000002000 ''2024-01-03'' ''2024-01-03''
        \<lparr>imageUpload = Some gif_file, brandInput = ''Acme'', productNameInput = ''hat'',
          categorySelect = ''topwear'', shoppingLinkInput = []\<rparr> sample_world
       = snd (validateImageFile gif_file sample_world)"
    by simp
  from r1 r2 r3 show ?thesis by blast
qed

subsection \<open>Bulk import\<close>

lemma validate_fst: "fst (validateImageFile f w) \<longleftrightarrow>
   (f_type f = ''image/jpeg'' \<or> f_type f = ''image/png'') \<and> f_size f \<le> MAX_IMAGE_SIZE"
  by (auto simp: validateImageFile_def Let_def)

lemma validate_snd_app [simp]: "app (snd (validateImageFile f w)) = app w"
  by (auto simp: validateImageFile_def Let_def)

lemma validate_snd_slot [simp]: "slot (snd (validateImageFile f w)) = slot w"
  by (auto simp: validateImageFile_def Let_def)

lemma accepted_iff: "accepted f \<longleftrightarrow> fst (validateImageFile f w) \<and> fileToBase64 f \<noteq> None"
  by (simp add: accepted_def validate_fst)

lemma batch_items_Nil [simp]: "batch_items D T i [] = []"
  by (simp add: batch_items_def)

lemma batch_items_Cons:
  "batch_items D T i (f # fs) =
     (if accepted f then [batch_item D T (i, f)] else []) @ batch_items D T (Suc i) fs"
proof -
  have "[i ..< i + length (f # fs)] = i # [Suc i ..< Suc i + length fs]"
    by (simp add: upt_conv_Cons del: upt_Suc)
  then show ?thesis
    unfolding batch_items_def by simp
qed

lemma batch_items_length: "length (batch_items D T i fs) \<le> length fs"
proof -
  have "length (filter (\<lambda>p. accepted (snd p)) (zip [i ..< i + length fs] fs))
          \<le> length (zip [i ..< i + length fs] fs)"
    by (rule length_filter_le)
  then show ?thesis by (simp add: batch_items_def)
qed

lemma push_item_objects [simp]: "objects (push_item c g a) = objects a @ [g]"
  by (simp add: push_item_def Let_def)

lemma push_item_topwear [simp]: "topwear (push_item c g a) =
   (if c = ''topwear'' then topwear a @ [length (objects a)] else topwear a)"
  by (simp add: push_item_def Let_def)

lemma push_item_bottomwear [simp]: "bottomwear (push_item c g a) =
   (if c = ''topwear'' then bottomwear a else bottomwear a @ [length (objects a)])"
  by (simp add: push_item_def Let_def)

lemma push_item_rest [simp]:
  "savedOutfits (push_item c g a) = savedOutfits a"
  "selectedTop (push_item c g a) = selectedTop a"
  "selectedBottom (push_item c g a) = selectedBottom a"
  by (simp_all add: push_item_def Let_def)

lemma bulk_loop_step:
  "bulk_loop D T c i (f # fs) (w, s, k) =
     (if accepted f
      then bulk_loop D T c (Suc i) fs
             ((snd (validateImageFile f w))\<lparr>app := push_item c (batch_item D T (i, f)) (app w)\<rparr>, Suc s, k)
      else bulk_loop D T c (Suc i) fs (snd (validateImageFile f w), s, Suc k))"
  by (auto simp: accepted_def validateImageFile_def batch_item_def Let_def split: option.splits)

lemma upt_cons_shift: "n # [Suc n ..< Suc (n + m)] = [n ..< Suc (n + m)]"
  by (simp add: upt_conv_Cons del: upt_Suc)

lemma bulk_loop_objects:
  "objects (app (fst (bulk_loop D T c i files (w, s, k)))) = objects (app w) @ batch_items D T i files"
  by (induction files arbitrary: i w s k)
     (simp_all add: bulk_loop_step batch_items_Cons del: bulk_loop.simps(2))

lemma bulk_loop_successCount:
  "fst (snd (bulk_loop D T c i files (w, s, k))) = s + length (batch_items D T i files)"
  by (induction files arbitrary: i w s k)
     (simp_all add: bulk_loop_step batch_items_Cons del: bulk_loop.simps(2))

lemma bulk_loop_failCount:
  "snd (snd (bulk_loop D T c i files (w, s, k))) + length (batch_items D T i files)
     = k + length files"
  by (induction files arbitrary: i w s k)
     (simp_all add: bulk_loop_step batch_items_Cons del: bulk_loop.simps(2))

lemma bulk_loop_into_topwear:
  "topwear (app (fst (bulk_loop D T ''topwear'' i files (w, s, k)))) =
     topwear (app w) @ [length (objects (app w)) ..<
                        length (objects (app w)) + length (batch_items D T i files)]"
  "bottomwear (app (fst (bulk_loop D T ''topwear'' i files (w, s, k)))) = bottomwear (app w)"
  by (induction files arbitrary: i w s k)
     (simp_all add: bulk_loop_step batch_items_Cons upt_cons_shift del: bulk_loop.simps(2) upt_Suc)

lemma bulk_loop_into_bottomwear:
  "c \<noteq> ''topwear'' \<Longrightarrow>
   bottomwear (app (fst (bulk_loop D T c i files (w, s, k)))) =
     bottomwear (app w) @ [length (objects (app w)) ..<
                           length (objects (app w)) + length (batch_items D T i files)]"
  "c \<noteq> ''topwear'' \<Longrightarrow>
   topwear (app (fst (bulk_loop D T c i files (w, s, k)))) = topwear (app w)"
  by (induction files arbitrary: i w s k)
     (simp_all add: bulk_loop_step batch_items_Cons upt_cons_shift del: bulk_loop.simps(2) upt_Suc)

lemma bulk_loop_rest:
  "savedOutfits (app (fst (bulk_loop D T c i files (w, s, k)))) = savedOutfits (app w)"
  "selectedTop (app (fst (bulk_loop D T c i files (w, s, k)))) = selectedTop (app w)"
  "selectedBottom (app (fst (bulk_loop D T c i files (w, s, k)))) = selectedBottom (app w)"
  "slot (fst (bulk_loop D T c i files (w, s, k))) = slot w"
  by (induction files arbitrary: i w s k)
     (simp_all add: bulk_loop_step del: bulk_loop.simps(2))

lemma batch_items_count: "length (batch_items D T i files) = length (filter accepted files)"
  by (induction files arbitrary: i) (simp_all add: batch_items_Cons)

lemma batch_items_images:
  "map g_image (batch_items D T i files) = map (\<lambda>f. the (fileToBase64 f)) (filter accepted files)"
  by (induction files arbitrary: i) (simp_all add: batch_items_Cons batch_item_def)

lemma batch_ids_lower:
  "(\<forall>i j. i \<le> j \<longrightarrow> D i \<le> D j) \<Longrightarrow> g \<in> set (batch_items D T i files) \<Longrightarrow>
   D i + int i \<le> g_id g"
proof (induction files arbitrary: i)
  case Nil
  then show ?case by simp
next
  case (Cons f fs)
  from Cons.prems(1) have step: "D i \<le> D (Suc i)" by simp
  from Cons.prems(2) consider "g = batch_item D T (i, f)" | "g \<in> set (batch_items D T (Suc i) fs)"
    by (auto simp: batch_items_Cons split: if_splits)
  then show ?case
  proof cases
    case 1
    then show ?thesis by (simp add: batch_item_def)
  next
    case 2
    from Cons.IH [OF Cons.prems(1) 2] step show ?thesis by simp
  qed
qed

lemma batch_ids_increasing:
  "(\<forall>i j. i \<le> j \<longrightarrow> D i \<le> D j) \<Longrightarrow> sorted_wrt (<) (map g_id (batch_items D T i files))"
proof (induction files arbitrary: i)
  case Nil
  then show ?case by simp
next
  case (Cons f fs)
  from Cons.prems have step: "D i \<le> D (Suc i)" by simp
  have "\<forall>g \<in> set (batch_items D T (Suc i) fs). D i + int i < g_id g"
  proof
    fix g assume "g \<in> set (batch_items D T (Suc i) fs)"
    from batch_ids_lower [OF Cons.prems this] step show "D i + int i < g_id g" by simp
  qed
  with Cons.IH [OF Cons.prems, of "Suc i"] show ?case
    by (simp add: batch_items_Cons batch_item_def)
qed

lemma nth_appended: "map (\<lambda>r. (xs @ ys) ! r) [length xs ..< length xs + length ys] = ys"
proof -
  have "[length xs ..< length xs + length ys] = map (\<lambda>i. i + length xs) [0 ..< length ys]"
    by (simp add: map_add_upt add.commute)
  then have "map (\<lambda>r. (xs @ ys) ! r) [length xs ..< length xs + length ys]
               = map (\<lambda>i. (xs @ ys) ! (i + length xs)) [0 ..< length ys]"
    by (simp add: o_def)
  also have "\<dots> = map (\<lambda>i. ys ! i) [0 ..< length ys]"
    by (simp add: nth_append)
  also have "\<dots> = ys"
    by (rule map_nth)
  finally show ?thesis .
qed

lemma bulkImportImages_app:
  "files \<noteq> [] \<Longrightarrow>
   app (bulkImportImages P D T savedAt files c w) = app (fst (bulk_loop D T c 0 files (w, 0, 0)))"
  by (simp add: bulkImportImages_def Let_def split_beta)

lemma bulkImportImages_report:
  assumes "files \<noteq> []"
  shows "last (notifications (bulkImportImages P D T savedAt files c w)) =
     ((if 0 < length files - length (filter accepted files)
       then ImportedWithFailures (length (filter accepted files))
              (length files - length (filter accepted files))
       else SuccessfullyImported (length (filter accepted files))), SuccessToast)"
proof -
  have "snd (snd (bulk_loop D T c 0 files (w, 0, 0))) + length (batch_items D T 0 files)
          = 0 + length files"
    by (rule bulk_loop_failCount)
  then have k: "snd (snd (bulk_loop D T c 0 files (w, 0, 0)))
                  = length files - length (filter accepted files)"
    by (simp add: batch_items_count)
  have s: "fst (snd (bulk_loop D T c 0 files (w, 0, 0))) = length (filter accepted files)"
    by (simp add: bulk_loop_successCount batch_items_count)
  from assms show ?thesis
    unfolding bulkImportImages_def Let_def split_beta k s by simp
qed

lemma bulkImportImages_added:
  assumes "files \<noteq> []"
  shows "(if c = ''topwear'' then topwear (app (bulkImportImages P D T savedAt files c w))
          else bottomwear (app (bulkImportImages P D T savedAt files c w)))
       = (if c = ''topwear'' then topwear (app w) else bottomwear (app w)) @
         [length (objects (app w)) ..< length (objects (app w)) + length (batch_items D T 0 files)]"
    and "(if c = ''topwear'' then bottomwear (app (bulkImportImages P D T savedAt files c w))
          else topwear (app (bulkImportImages P D T savedAt files c w)))
       = (if c = ''topwear'' then bottomwear (app w) else topwear (app w))"
    and "objects (app (bulkImportImages P D T savedAt files c w))
       = objects (app w) @ batch_items D T 0 files"
proof -
  note a = bulkImportImages_app [OF assms]
  show "(if c = ''topwear'' then topwear (app (bulkImportImages P D T savedAt files c w))
          else bottomwear (app (bulkImportImages P D T savedAt files c w)))
       = (if c = ''topwear'' then topwear (app w) else bottomwear (app w)) @
         [length (objects (app w)) ..< length (objects (app w)) + length (batch_items D T 0 files)]"
    unfolding a by (cases "c = ''topwear''") (simp_all add: bulk_loop_into_topwear bulk_loop_into_bottomwear)
  show "(if c = ''topwear'' then bottomwear (app (bulkImportImages P D T savedAt files c w))
          else topwear (app (bulkImportImages P D T savedAt files c w)))
       = (if c = ''topwear'' then bottomwear (app w) else topwear (app w))"
    unfolding a by (cases "c = ''topwear''") (simp_all add: bulk_loop_into_topwear bulk_loop_into_bottomwear)
  show "objects (app (bulkImportImages P D T savedAt files c w))
       = objects (app w) @ batch_items D T 0 files"
    unfolding a by (rule bulk_loop_objects)
qed

lemma added_garments:
  assumes "files \<noteq> []"
  shows "map (deref (app (bulkImportImages P D T savedAt files c w)))
           (drop (length (if c = ''topwear'' then topwear (app w) else bottomwear (app w)))
              (if c = ''topwear'' then topwear (app (bulkImportImages P D T savedAt files c w))
               else bottomwear (app (bulkImportImages P D T savedAt files c w))))
         = batch_items D T 0 files"
proof -
  have "map (deref (app (bulkImportImages P D T savedAt files c w)))
          [length (objects (app w)) ..< length (objects (app w)) + length (batch_items D T 0 files)]
        = map (\<lambda>r. (objects (app w) @ batch_items D T 0 files) ! r)
          [length (objects (app w)) ..< length (objects (app w)) + length (batch_items D T 0 files)]"
    unfolding deref_def bulkImportImages_added(3) [OF assms] ..
  also have "\<dots> = batch_items D T 0 files"
    by (rule nth_appended)
  finally show ?thesis
    unfolding bulkImportImages_added(1) [OF assms] by simp
qed

text \<open>
  Claim C8. When the clock never runs backwards during a batch, the ids of the items
  the batch adds to the chosen collection increase strictly in the order the items were
  added, so they are pairwise distinct; the items that were there before stay in front,
  unchanged.
\<close>

theorem bulkImportImages_ids_distinct:
  "(\<forall>i j. i \<le> j \<longrightarrow> Date_now i \<le> Date_now j) \<longrightarrow>
   (let w' = bulkImportImages P Date_now toISOString savedAt files category w;
        before = (if category = ''topwear'' then topwear (app w) else bottomwear (app w));
        after = (if category = ''topwear'' then topwear (app w') else bottomwear (app w'));
        ids = map (\<lambda>r. g_id (deref (app w') r)) (drop (length before) after)
    in take (length before) after = before \<and> sorted_wrt (<) ids \<and> distinct ids)"
proof (cases "files = []")
  case True
  then show ?thesis by (simp add: bulkImportImages_def Let_def)
next
  case False
  show ?thesis
  proof
    assume mono: "\<forall>i j. i \<le> j \<longrightarrow> Date_now i \<le> Date_now j"
    let ?w' = "bulkImportImages P Date_now toISOString savedAt files category w"
    let ?before = "if category = ''topwear'' then topwear (app w) else bottomwear (app w)"
    let ?after = "if category = ''topwear'' then topwear (app ?w') else bottomwear (app ?w')"
    let ?ids = "map (\<lambda>r. g_id (deref (app ?w') r)) (drop (length ?before) ?after)"
    have kept: "take (length ?before) ?after = ?before"
      unfolding bulkImportImages_added(1) [OF False] by simp
    have "?ids = map g_id (map (deref (app ?w')) (drop (length ?before) ?after))"
      by (simp add: o_def)
    then have ids: "?ids = map g_id (batch_items Date_now toISOString 0 files)"
      unfolding added_garments [OF False] .
    have inc: "sorted_wrt (<) ?ids"
      unfolding ids by (rule batch_ids_increasing [OF mono])
    then have "distinct ?ids"
      by (simp only: strict_sorted_iff)
    with kept inc show "let w' = ?w'; before = ?before;
        after = (if category = ''topwear'' then topwear (app w') else bottomwear (app w'));
        ids = map (\<lambda>r. g_id (deref (app w') r)) (drop (length before) after)
      in take (length before) after = before \<and> sorted_wrt (<) ids \<and> distinct ids"
      by (simp only: Let_def)
  qed
qed

theorem bulkImportImages_ids_distinct_witness:
  "distinct (map (\<lambda>r. g_id (deref (app (bulkImportImages (stub_platform JNull None) still_clock
        still_stamp ''2024-01-04T09:00:01.000Z'' [png_file, gif_file, png_file] ''topwear''
        sample_world)) r))
     (drop 1 (topwear (app (bulkImportImages (stub_platform JNull None) still_clock
        still_stamp ''2024-01-04T09:00:01.000Z'' [png_file, gif_file, png_file] ''topwear''
        sample_world)))))"
proof -
  have mono: "\<forall>i j. i \<le> j \<longrightarrow> still_clock i \<le> still_clock j"
    by (simp add: still_clock_def)
  have len: "length (topwear (app sample_world)) = 1"
    by (simp add: sample_world_def sample_app_def)
  from mono len bulkImportImages_ids_distinct
      [where Date_now = still_clock and P = "stub_platform JNull None"
         and toISOString = still_stamp and savedAt = "''2024-01-04T09:00:01.000Z''"
         and files = "[png_file, gif_file, png_file]" and category = "''topwear''"
         and w = sample_world]
  show ?thesis
    by (simp add: Let_def)
qed

text \<open>
  Claim C7, as amended. For a batch of \<open>N \<ge> 1\<close> files of which \<open>K\<close> fail validation or
  the read, \<open>bulkImportImages\<close> appends exactly \<open>N - K\<close> items to the chosen collection,
  one for each file that got through, in order and whatever failed before it, leaves
  the other collection alone, and ends with a report naming \<open>N - K\<close> imported and, when
  \<open>K > 0\<close>, \<open>K\<close> failed. For an empty batch it only shows the error asking to select an
  image.
\<close>

theorem bulkImportImages_counts:
  "(files = [] \<longrightarrow>
      bulkImportImages P Date_now toISOString savedAt files category w =
        showNotification SelectAtLeastOneImage ErrorToast w)
   \<and> (files \<noteq> [] \<longrightarrow>
      (let w' = bulkImportImages P Date_now toISOString savedAt files category w;
           N = length files;
           K = length (filter (\<lambda>f. \<not> fst (validateImageFile f w) \<or> fileToBase64 f = None) files);
           before = (if category = ''topwear'' then topwear (app w) else bottomwear (app w));
           after = (if category = ''topwear'' then topwear (app w') else bottomwear (app w'))
       in K \<le> N
          \<and> length after = length before + (N - K)
          \<and> take (length before) after = before
          \<and> map (\<lambda>r. g_image (deref (app w') r)) (drop (length before) after) =
              map (\<lambda>f. the (fileToBase64 f))
                (filter (\<lambda>f. fst (validateImageFile f w) \<and> fileToBase64 f \<noteq> None) files)
          \<and> (if category = ''topwear'' then bottomwear (app w') = bottomwear (app w)
              else topwear (app w') = topwear (app w))
          \<and> last (notifications w') =
              ((if 0 < K then ImportedWithFailures (N - K) K else SuccessfullyImported (N - K)),
               SuccessToast)))"
proof (cases "files = []")
  case True
  then show ?thesis by (simp add: bulkImportImages_def)
next
  case False
  let ?w' = "bulkImportImages P Date_now toISOString savedAt files category w"
  let ?N = "length files"
  let ?K = "length (filter (\<lambda>f. \<not> fst (validateImageFile f w) \<or> fileToBase64 f = None) files)"
  let ?before = "if category = ''topwear'' then topwear (app w) else bottomwear (app w)"
  let ?after = "if category = ''topwear'' then topwear (app ?w') else bottomwear (app ?w')"
  have acc: "(\<lambda>f. fst (validateImageFile f w) \<and> fileToBase64 f \<noteq> None) = accepted"
    by (rule ext) (simp add: accepted_iff [of _ w])
  have rej: "(\<lambda>f. \<not> fst (validateImageFile f w) \<or> fileToBase64 f = None) = (\<lambda>f. \<not> accepted f)"
    by (rule ext) (simp add: accepted_iff [of _ w])
  have "length (filter accepted files) + length (filter (\<lambda>f. \<not> accepted f) files) = ?N"
    by (rule sum_length_filter_compl)
  then have K: "?K = ?N - length (filter accepted files)" and KN: "?K \<le> ?N"
    and NK: "?N - ?K = length (filter accepted files)"
    unfolding rej by simp_all
  have len: "length ?after = length ?before + (?N - ?K)"
    unfolding bulkImportImages_added(1) [OF False] NK by (simp add: batch_items_count)
  have kept: "take (length ?before) ?after = ?before"
    unfolding bulkImportImages_added(1) [OF False] by simp
  have "map (\<lambda>r. g_image (deref (app ?w') r)) (drop (length ?before) ?after)
          = map g_image (map (deref (app ?w')) (drop (length ?before) ?after))"
    by (simp add: o_def)
  then have imgs: "map (\<lambda>r. g_image (deref (app ?w') r)) (drop (length ?before) ?after)
          = map (\<lambda>f. the (fileToBase64 f))
              (filter (\<lambda>f. fst (validateImageFile f w) \<and> fileToBase64 f \<noteq> None) files)"
    unfolding added_garments [OF False] acc by (simp only: batch_items_images)
  have other: "if category = ''topwear'' then bottomwear (app ?w') = bottomwear (app w)
               else topwear (app ?w') = topwear (app w)"
    using bulkImportImages_added(2) [OF False, of category P Date_now toISOString savedAt w]
    by (simp split: if_splits)
  have report: "last (notifications ?w') =
      ((if 0 < ?K then ImportedWithFailures (?N - ?K) ?K else SuccessfullyImported (?N - ?K)),
       SuccessToast)"
    unfolding NK unfolding K by (rule bulkImportImages_report [OF False])
  from False KN len kept imgs other report show ?thesis
    by (simp only: Let_def) blast
qed

theorem bulkImportImages_counts_witness:
  "[png_file, gif_file, unreadable_file, png_file] \<noteq> []
   \<and> length (topwear (app (bulkImportImages (stub_platform JNull None) still_clock still_stamp
        ''2024-01-04T09:00:01.000Z'' [png_file, gif_file, unreadable_file, png_file] ''topwear''
        sample_world))) = 3
   \<and> bottomwear (app (bulkImportImages (stub_platform JNull None) still_clock still_stamp
        ''2024-01-04T09:00:01.000Z'' [png_file, gif_file, unreadable_file, png_file] ''topwear''
        sample_world)) = [1]
   \<and> last (notifications (bulkImportImages (stub_platform JNull None) still_clock still_stamp
        ''2024-01-04T09:00:01.000Z'' [png_file, gif_file, unreadable_file, png_file] ''topwear''
        sample_world)) = (ImportedWithFailures 2 2, SuccessToast)"
proof -
  have K: "length (filter (\<lambda>f. \<not> fst (validateImageFile f sample_world) \<or> fileToBase64 f = None)
             [png_file, gif_file, unreadable_file, png_file]) = 2"
    by (simp add: validateImageFile_def fileToBase64_def MAX_IMAGE_SIZE_def png_file_def
          gif_file_def unreadable_file_def Let_def)
  have ne: "[png_file, gif_file, unreadable_file, png_file] \<noteq> []"
    by simp
  have s: "length (topwear (app sample_world)) = 1 \<and> bottomwear (app sample_world) = [1]"
    by (simp add: sample_world_def sample_app_def)
  from K ne s bulkImportImages_counts
      [where P = "stub_platform JNull None" and Date_now = still_clock
         and toISOString = still_stamp and savedAt = "''2024-01-04T09:00:01.000Z''"
         and files = "[png_file, gif_file, unreadable_file, png_file]"
         and category = "''topwear''" and w = sample_world]
  show ?thesis
    by (simp add: Let_def)
qed

text \<open>
  The claim as first stated asks for a report of counts for every batch; on an empty
  batch the only notification is the error, not a report of zero imported.
\<close>

theorem bulkImportImages_empty_batch_counterexample:
  "notifications (bulkImportImages (stub_platform JNull None) still_clock still_stamp
      ''2024-01-04T09:00:01.000Z'' [] ''topwear'' sample_world)
     = [(SelectAtLeastOneImage, ErrorToast)]
   \<and> (SelectAtLeastOneImage, ErrorToast) \<noteq> (SuccessfullyImported 0, SuccessToast)"
  by (simp add: bulkImportImages_def sample_world_def)

subsection \<open>Shuffling\<close>

lemma pick_product:
  assumes "0 \<le> Number_times P r (real (length xs))"
    and "Number_times P r (real (length xs)) < real (length xs)"
  shows "nat \<lfloor>Number_times P r (real (length xs))\<rfloor> < length xs"
    and "pick P r xs = Some (xs ! nat \<lfloor>Number_times P r (real (length xs))\<rfloor>)"
proof -
  let ?p = "Number_times P r (real (length xs))"
  from assms(1) have fl: "0 \<le> \<lfloor>?p\<rfloor>" by simp
  have "real_of_int \<lfloor>?p\<rfloor> \<le> ?p" by (rule of_int_floor_le)
  with assms(2) have "real_of_int \<lfloor>?p\<rfloor> < real (length xs)" by linarith
  with fl show lt: "nat \<lfloor>?p\<rfloor> < length xs" by linarith
  from fl lt show "pick P r xs = Some (xs ! nat \<lfloor>?p\<rfloor>)"
    by (simp add: pick_def Let_def)
qed

lemma pick_interval:
  assumes "Number_times P r (real (length xs)) = r * real (length xs)"
    and "i < length xs" and "real i / real (length xs) \<le> r"
    and "r < real (i + 1) / real (length xs)"
  shows "pick P r xs = Some (xs ! i)"
proof -
  from assms(2) have n: "0 < real (length xs)" by (cases xs) simp_all
  from assms(3) n have lo: "real i \<le> r * real (length xs)"
    by (simp add: pos_divide_le_eq)
  from assms(4) n have hi: "r * real (length xs) < real (i + 1)"
    by (simp add: pos_less_divide_eq)
  from lo hi have "\<lfloor>r * real (length xs)\<rfloor> = int i"
    by (simp add: floor_eq_iff)
  with assms(1,2) show ?thesis
    by (simp add: pick_def)
qed

lemma draw_interval:
  assumes "xs \<noteq> []" and "0 \<le> r" and "r < 1"
  shows "\<exists>i<length xs. real i / real (length xs) \<le> r \<and> r < real (i + 1) / real (length xs)"
proof -
  let ?n = "real (length xs)"
  let ?i = "nat \<lfloor>r * ?n\<rfloor>"
  from assms(1) have n: "0 < ?n" by simp
  from assms(2) n have nonneg: "0 \<le> r * ?n" by simp
  then have fl: "0 \<le> \<lfloor>r * ?n\<rfloor>" by simp
  then have i: "real ?i = of_int \<lfloor>r * ?n\<rfloor>" by simp
  have lo: "real ?i \<le> r * ?n" unfolding i by (rule of_int_floor_le)
  have hi: "r * ?n < real ?i + 1" unfolding i by linarith
  from assms(3) n have "r * ?n < ?n" by simp
  with lo have "real ?i < ?n" by simp
  then have ilt: "?i < length xs" by simp
  from lo n have a: "real ?i / ?n \<le> r" by (simp add: pos_divide_le_eq)
  from hi n have b: "r < real (?i + 1) / ?n" by (simp add: pos_less_divide_eq)
  from ilt a b show ?thesis by blast
qed

text \<open>
  Claim C6. With either collection empty, \<open>shuffleOutfit\<close> only shows the error, so
  both selections stay as they were. With both non-empty, and each product
  \<open>Math.random() * length\<close> of the platform in \<open>[0, length)\<close>, the two selections are set
  together, each to the member at the floor of its product. Where the product is the
  exact one, position \<open>i\<close> of \<open>n\<close> is taken for the draws in \<open>[i / n, (i + 1) / n)\<close>, an
  interval of the same length for every position, and every draw in \<open>[0, 1)\<close> lies in
  one of them, so a uniform draw picks uniformly; a product rounded as doubles are can
  move a draw next to a boundary to the neighbouring position, as with
  \<open>0.5714285714285714\<close> and seven tops in the sample run. The top depends on the first
  draw alone and the bottom on the second alone.
\<close>

theorem shuffleOutfit_both_or_neither:
  "(topwear (app w) = [] \<or> bottomwear (app w) = [] \<longrightarrow>
      shuffleOutfit P random1 random2 w = showNotification AddTopAndBottomFirst ErrorToast w)
   \<and> (topwear (app w) \<noteq> [] \<and> bottomwear (app w) \<noteq> [] \<and>
       0 \<le> Number_times P random1 (real (length (topwear (app w)))) \<and>
       Number_times P random1 (real (length (topwear (app w)))) < real (length (topwear (app w))) \<and>
       0 \<le> Number_times P random2 (real (length (bottomwear (app w)))) \<and>
       Number_times P random2 (real (length (bottomwear (app w))))
         < real (length (bottomwear (app w))) \<longrightarrow>
      nat \<lfloor>Number_times P random1 (real (length (topwear (app w))))\<rfloor> < length (topwear (app w)) \<and>
      nat \<lfloor>Number_times P random2 (real (length (bottomwear (app w))))\<rfloor>
        < length (bottomwear (app w)) \<and>
      shuffleOutfit P random1 random2 w =
        w\<lparr>app := (app w)
           \<lparr>selectedTop := Some (topwear (app w) !
                nat \<lfloor>Number_times P random1 (real (length (topwear (app w))))\<rfloor>),
            selectedBottom := Some (bottomwear (app w) !
                nat \<lfloor>Number_times P random2 (real (length (bottomwear (app w))))\<rfloor>)\<rparr>\<rparr>)
   \<and> (Number_times P random1 (real (length (topwear (app w))))
         = random1 * real (length (topwear (app w))) \<and>
       Number_times P random2 (real (length (bottomwear (app w))))
         = random2 * real (length (bottomwear (app w))) \<and>
       i < length (topwear (app w)) \<and> j < length (bottomwear (app w)) \<and>
       real i / real (length (topwear (app w))) \<le> random1 \<and>
       random1 < real (i + 1) / real (length (topwear (app w))) \<and>
       real j / real (length (bottomwear (app w))) \<le> random2 \<and>
       random2 < real (j + 1) / real (length (bottomwear (app w))) \<longrightarrow>
      shuffleOutfit P random1 random2 w =
        w\<lparr>app := (app w)\<lparr>selectedTop := Some (topwear (app w) ! i),
                         selectedBottom := Some (bottomwear (app w) ! j)\<rparr>\<rparr>)
   \<and> (topwear (app w) \<noteq> [] \<and> bottomwear (app w) \<noteq> [] \<and>
       0 \<le> random1 \<and> random1 < 1 \<and> 0 \<le> random2 \<and> random2 < 1 \<longrightarrow>
      (\<exists>i' < length (topwear (app w)). \<exists>j' < length (bottomwear (app w)).
         real i' / real (length (topwear (app w))) \<le> random1 \<and>
         random1 < real (i' + 1) / real (length (topwear (app w))) \<and>
         real j' / real (length (bottomwear (app w))) \<le> random2 \<and>
         random2 < real (j' + 1) / real (length (bottomwear (app w)))))
   \<and> selectedTop (app (shuffleOutfit P random1 random2 w))
       = selectedTop (app (shuffleOutfit P random1 other w))
   \<and> selectedBottom (app (shuffleOutfit P random1 random2 w))
       = selectedBottom (app (shuffleOutfit P other random2 w))"
proof -
  let ?tops = "topwear (app w)" and ?bots = "bottomwear (app w)"
  let ?p1 = "Number_times P random1 (real (length ?tops))"
  let ?p2 = "Number_times P random2 (real (length ?bots))"
  have a: "?tops = [] \<or> ?bots = [] \<longrightarrow>
      shuffleOutfit P random1 random2 w = showNotification AddTopAndBottomFirst ErrorToast w"
    by (auto simp: shuffleOutfit_def)
  have b: "?tops \<noteq> [] \<and> ?bots \<noteq> [] \<and> 0 \<le> ?p1 \<and> ?p1 < real (length ?tops) \<and>
       0 \<le> ?p2 \<and> ?p2 < real (length ?bots) \<longrightarrow>
      nat \<lfloor>?p1\<rfloor> < length ?tops \<and> nat \<lfloor>?p2\<rfloor> < length ?bots \<and>
      shuffleOutfit P random1 random2 w =
        w\<lparr>app := (app w)\<lparr>selectedTop := Some (?tops ! nat \<lfloor>?p1\<rfloor>),
                         selectedBottom := Some (?bots ! nat \<lfloor>?p2\<rfloor>)\<rparr>\<rparr>"
  proof
    assume h: "?tops \<noteq> [] \<and> ?bots \<noteq> [] \<and> 0 \<le> ?p1 \<and> ?p1 < real (length ?tops) \<and>
       0 \<le> ?p2 \<and> ?p2 < real (length ?bots)"
    then have r1: "0 \<le> ?p1" "?p1 < real (length ?tops)" and r2: "0 \<le> ?p2" "?p2 < real (length ?bots)"
      by simp_all
    from h have ne: "length ?tops \<noteq> 0" "length ?bots \<noteq> 0" by simp_all
    from ne pick_product [OF r1] pick_product [OF r2]
    show "nat \<lfloor>?p1\<rfloor> < length ?tops \<and> nat \<lfloor>?p2\<rfloor> < length ?bots \<and>
      shuffleOutfit P random1 random2 w =
        w\<lparr>app := (app w)\<lparr>selectedTop := Some (?tops ! nat \<lfloor>?p1\<rfloor>),
                         selectedBottom := Some (?bots ! nat \<lfloor>?p2\<rfloor>)\<rparr>\<rparr>"
      by (simp add: shuffleOutfit_def)
  qed
  have c: "?p1 = random1 * real (length ?tops) \<and> ?p2 = random2 * real (length ?bots) \<and>
       i < length ?tops \<and> j < length ?bots \<and>
       real i / real (length ?tops) \<le> random1 \<and> random1 < real (i + 1) / real (length ?tops) \<and>
       real j / real (length ?bots) \<le> random2 \<and> random2 < real (j + 1) / real (length ?bots) \<longrightarrow>
      shuffleOutfit P random1 random2 w =
        w\<lparr>app := (app w)\<lparr>selectedTop := Some (?tops ! i), selectedBottom := Some (?bots ! j)\<rparr>\<rparr>"
  proof
    assume h: "?p1 = random1 * real (length ?tops) \<and> ?p2 = random2 * real (length ?bots) \<and>
       i < length ?tops \<and> j < length ?bots \<and>
       real i / real (length ?tops) \<le> random1 \<and> random1 < real (i + 1) / real (length ?tops) \<and>
       real j / real (length ?bots) \<le> random2 \<and> random2 < real (j + 1) / real (length ?bots)"
    then have e1: "?p1 = random1 * real (length ?tops)" and e2: "?p2 = random2 * real (length ?bots)"
      and i: "i < length ?tops" "real i / real (length ?tops) \<le> random1"
             "random1 < real (i + 1) / real (length ?tops)"
      and j: "j < length ?bots" "real j / real (length ?bots) \<le> random2"
             "random2 < real (j + 1) / real (length ?bots)"
      by simp_all
    from i(1) j(1) have ne: "length ?tops \<noteq> 0" "length ?bots \<noteq> 0" by auto
    from ne pick_interval [OF e1 i] pick_interval [OF e2 j]
    show "shuffleOutfit P random1 random2 w =
        w\<lparr>app := (app w)\<lparr>selectedTop := Some (?tops ! i), selectedBottom := Some (?bots ! j)\<rparr>\<rparr>"
      by (simp add: shuffleOutfit_def)
  qed
  have d: "?tops \<noteq> [] \<and> ?bots \<noteq> [] \<and>
       0 \<le> random1 \<and> random1 < 1 \<and> 0 \<le> random2 \<and> random2 < 1 \<longrightarrow>
      (\<exists>i' < length ?tops. \<exists>j' < length ?bots.
         real i' / real (length ?tops) \<le> random1 \<and> random1 < real (i' + 1) / real (length ?tops) \<and>
         real j' / real (length ?bots) \<le> random2 \<and> random2 < real (j' + 1) / real (length ?bots))"
  proof
    assume h: "?tops \<noteq> [] \<and> ?bots \<noteq> [] \<and>
       0 \<le> random1 \<and> random1 < 1 \<and> 0 \<le> random2 \<and> random2 < 1"
    from h draw_interval [of ?tops random1] obtain i' where
      i': "i' < length ?tops" "real i' / real (length ?tops) \<le> random1"
          "random1 < real (i' + 1) / real (length ?tops)"
      by blast
    from h draw_interval [of ?bots random2] obtain j' where
      j': "j' < length ?bots" "real j' / real (length ?bots) \<le> random2"
          "random2 < real (j' + 1) / real (length ?bots)"
      by blast
    from i' j'
    show "\<exists>i' < length ?tops. \<exists>j' < length ?bots.
         real i' / real (length ?tops) \<le> random1 \<and> random1 < real (i' + 1) / real (length ?tops) \<and>
         real j' / real (length ?bots) \<le> random2 \<and> random2 < real (j' + 1) / real (length ?bots)"
      by blast
  qed
  have e: "selectedTop (app (shuffleOutfit P random1 random2 w))
       = selectedTop (app (shuffleOutfit P random1 other w))"
    by (simp add: shuffleOutfit_def)
  have f: "selectedBottom (app (shuffleOutfit P random1 random2 w))
       = selectedBottom (app (shuffleOutfit P other random2 w))"
    by (simp add: shuffleOutfit_def)
  from a b c d e f show ?thesis by (intro conjI)
qed

theorem shuffleOutfit_both_or_neither_witness:
  "shuffleOutfit (stub_platform JNull None) (3 / 4) (1 / 4) empty_world
     = showNotification AddTopAndBottomFirst ErrorToast empty_world
   \<and> shuffleOutfit (stub_platform JNull None) (3 / 4) (1 / 4) closet_world
     = closet_world\<lparr>app := (app closet_world)\<lparr>selectedTop := Some 2, selectedBottom := Some 1\<rparr>\<rparr>
   \<and> shuffleOutfit rounding_platform (5714285714285714 / 10000000000000000) (1 / 4) rack_world
     = rack_world\<lparr>app := (app rack_world)\<lparr>selectedTop := Some 5, selectedBottom := Some 1\<rparr>\<rparr>"
proof -
  let ?S = "stub_platform JNull None"
  let ?R = "rounding_platform"
  let ?d = "5714285714285714 / 10000000000000000 :: real"
  have e: "topwear (app empty_world) = []"
    by (simp add: empty_world_def)
  have hc: "Number_times ?S (3 / 4) (real (length (topwear (app closet_world))))
              = 3 / 4 * real (length (topwear (app closet_world))) \<and>
            Number_times ?S (1 / 4) (real (length (bottomwear (app closet_world))))
              = 1 / 4 * real (length (bottomwear (app closet_world))) \<and>
            1 < length (topwear (app closet_world)) \<and> 0 < length (bottomwear (app closet_world)) \<and>
            real 1 / real (length (topwear (app closet_world))) \<le> 3 / 4 \<and>
            3 / 4 < real (1 + 1) / real (length (topwear (app closet_world))) \<and>
            real 0 / real (length (bottomwear (app closet_world))) \<le> 1 / 4 \<and>
            1 / 4 < real (0 + 1) / real (length (bottomwear (app closet_world)))"
    by (simp add: closet_world_def stub_platform_def)
  have hk: "topwear (app rack_world) \<noteq> [] \<and> bottomwear (app rack_world) \<noteq> [] \<and>
            0 \<le> Number_times ?R ?d (real (length (topwear (app rack_world)))) \<and>
            Number_times ?R ?d (real (length (topwear (app rack_world))))
              < real (length (topwear (app rack_world))) \<and>
            0 \<le> Number_times ?R (1 / 4) (real (length (bottomwear (app rack_world)))) \<and>
            Number_times ?R (1 / 4) (real (length (bottomwear (app rack_world))))
              < real (length (bottomwear (app rack_world)))"
    by (simp add: rack_world_def rounding_platform_def)
  have vc: "topwear (app closet_world) ! 1 = 2 \<and> bottomwear (app closet_world) ! 0 = 1"
    by (simp add: closet_world_def)
  have vk: "topwear (app rack_world) !
              nat \<lfloor>Number_times ?R ?d (real (length (topwear (app rack_world))))\<rfloor> = 5 \<and>
            bottomwear (app rack_world) !
              nat \<lfloor>Number_times ?R (1 / 4) (real (length (bottomwear (app rack_world))))\<rfloor> = 1"
    by (simp add: rack_world_def rounding_platform_def)
  from e shuffleOutfit_both_or_neither [where w = empty_world and P = ?S
      and ?random1.0 = "3 / 4" and ?random2.0 = "1 / 4"]
  have r1: "shuffleOutfit ?S (3 / 4) (1 / 4) empty_world
     = showNotification AddTopAndBottomFirst ErrorToast empty_world"
    by blast
  from hc shuffleOutfit_both_or_neither [where w = closet_world and P = ?S
      and ?random1.0 = "3 / 4" and ?random2.0 = "1 / 4" and i = 1 and j = 0]
  have "shuffleOutfit ?S (3 / 4) (1 / 4) closet_world
     = closet_world\<lparr>app := (app closet_world)
         \<lparr>selectedTop := Some (topwear (app closet_world) ! 1),
          selectedBottom := Some (bottomwear (app closet_world) ! 0)\<rparr>\<rparr>"
    by blast
  with vc have r2: "shuffleOutfit ?S (3 / 4) (1 / 4) closet_world
     = closet_world\<lparr>app := (app closet_world)\<lparr>selectedTop := Some 2, selectedBottom := Some 1\<rparr>\<rparr>"
    by simp
  from hk shuffleOutfit_both_or_neither [where w = rack_world and P = ?R
      and ?random1.0 = ?d and ?random2.0 = "1 / 4"]
  have "shuffleOutfit ?R ?d (1 / 4) rack_world
     = rack_world\<lparr>app := (app rack_world)
         \<lparr>selectedTop := Some (topwear (app rack_world) !
              nat \<lfloor>Number_times ?R ?d (real (length (topwear (app rack_world))))\<rfloor>),
          selectedBottom := Some (bottomwear (app rack_world) !
              nat \<lfloor>Number_times ?R (1 / 4) (real (length (bottomwear (app rack_world))))\<rfloor>)\<rparr>\<rparr>"
    by blast
  with vk have r3: "shuffleOutfit ?R ?d (1 / 4) rack_world
     = rack_world\<lparr>app := (app rack_world)\<lparr>selectedTop := Some 5, selectedBottom := Some 1\<rparr>\<rparr>"
    by simp
  from r1 r2 r3 show ?thesis by (intro conjI)
qed

subsection \<open>Export and import\<close>








lemma or_empty_undefined [simp]: "or_empty None = JArr []"
  by (simp add: or_empty_def)




















lemma saveToLocalStorage_untyped_fields [simp]:
  "u_objects (saveToLocalStorage_untyped P savedAt u) = u_objects u"
  "u_topwear (saveToLocalStorage_untyped P savedAt u) = u_topwear u"
  "u_bottomwear (saveToLocalStorage_untyped P savedAt u) = u_bottomwear u"
  "u_savedOutfits (saveToLocalStorage_untyped P savedAt u) = u_savedOutfits u"
  "u_selectedTop (saveToLocalStorage_untyped P savedAt u) = u_selectedTop u"
  "u_selectedBottom (saveToLocalStorage_untyped P savedAt u) = u_selectedBottom u"
  by (simp_all add: saveToLocalStorage_untyped_def Let_def split: option.splits)


lemma renderUI_throws_saved [simp]:
  "renderUI_throws (saveToLocalStorage_untyped P savedAt u) = renderUI_throws u"
  by (simp add: renderUI_throws_def)






subsection \<open>A stored outfit stays stored\<close>

lemma prefix_nth: "prefix xs ys \<Longrightarrow> r < length xs \<Longrightarrow> ys ! r = xs ! r"
  by (auto simp: prefix_def nth_append)

lemma addItem_objects:
  "prefix (objects (app w)) (objects (app (addItem P now uploadedAt savedAt form w)))"
  unfolding addItem_def
  by (auto simp: Let_def split_beta split: option.splits bool.splits prod.splits)

lemma addItem_savedOutfits:
  "savedOutfits (app (addItem P now uploadedAt savedAt form w)) = savedOutfits (app w)"
  unfolding addItem_def
  by (auto simp: Let_def split_beta validateImageFile_def split: option.splits bool.splits prod.splits)

lemma bulkImportImages_objects:
  "prefix (objects (app w)) (objects (app (bulkImportImages P D T savedAt files c w)))"
proof (cases "files = []")
  case True
  then show ?thesis by (simp add: bulkImportImages_def)
next
  case False
  then show ?thesis by (simp add: bulkImportImages_added(3))
qed

lemma bulkImportImages_savedOutfits:
  "savedOutfits (app (bulkImportImages P D T savedAt files c w)) = savedOutfits (app w)"
proof (cases "files = []")
  case True
  then show ?thesis by (simp add: bulkImportImages_def)
next
  case False
  then show ?thesis by (simp add: bulkImportImages_app bulk_loop_rest(1))
qed

lemma handle_keeps:
  assumes "keeps_outfit P i e" and "x \<in> set (savedOutfits (app w))" and "o_id x = i"
  shows "\<exists>w'. handle P e w = Typed w' \<and> x \<in> set (savedOutfits (app w')) \<and>
              prefix (objects (app w)) (objects (app w'))"
proof -
  have k: "\<And>w'. handle P e w = Typed w' \<Longrightarrow> x \<in> set (savedOutfits (app w')) \<Longrightarrow>
             prefix (objects (app w)) (objects (app w')) \<Longrightarrow> ?thesis"
    by blast
  show ?thesis
  proof (cases e)
    case WindowLoad
    with assms(1) show ?thesis by simp
  next
    case (AddItemClick now uploadedAt savedAt form)
    show ?thesis
    proof (rule k)
      show "handle P e w = Typed (addItem P now uploadedAt savedAt form w)"
        unfolding AddItemClick by simp
      show "x \<in> set (savedOutfits (app (addItem P now uploadedAt savedAt form w)))"
        unfolding addItem_savedOutfits by (rule assms(2))
      show "prefix (objects (app w)) (objects (app (addItem P now uploadedAt savedAt form w)))"
        by (rule addItem_objects)
    qed
  next
    case (BulkImportClick D T savedAt files c)
    show ?thesis
    proof (rule k)
      show "handle P e w = Typed (bulkImportImages P D T savedAt files c w)"
        unfolding BulkImportClick by simp
      show "x \<in> set (savedOutfits (app (bulkImportImages P D T savedAt files c w)))"
        unfolding bulkImportImages_savedOutfits by (rule assms(2))
      show "prefix (objects (app w)) (objects (app (bulkImportImages P D T savedAt files c w)))"
        by (rule bulkImportImages_objects)
    qed
  next
    case (ShuffleClick r1 r2)
    show ?thesis
    proof (rule k)
      show "handle P e w = Typed (shuffleOutfit P r1 r2 w)"
        unfolding ShuffleClick by simp
      show "x \<in> set (savedOutfits (app (shuffleOutfit P r1 r2 w)))"
        using assms(2) by (simp add: shuffleOutfit_def)
      show "prefix (objects (app w)) (objects (app (shuffleOutfit P r1 r2 w)))"
        by (simp add: shuffleOutfit_def)
    qed
  next
    case (SaveOutfitClick now savedAt)
    show ?thesis
    proof (rule k)
      show "handle P e w = Typed (saveOutfit P now savedAt w)"
        unfolding SaveOutfitClick by simp
      show "x \<in> set (savedOutfits (app (saveOutfit P now savedAt w)))"
        using assms(2) by (simp add: saveOutfit_def Let_def split: option.splits)
      show "prefix (objects (app w)) (objects (app (saveOutfit P now savedAt w)))"
        by (simp add: saveOutfit_def Let_def split: option.splits)
    qed
  next
    case (RemoveOutfitClick savedAt removed)
    with assms(1,3) have ne: "o_id x \<noteq> removed" by simp
    show ?thesis
    proof (rule k)
      show "handle P e w = Typed (removeOutfit P savedAt removed w)"
        unfolding RemoveOutfitClick by simp
      show "x \<in> set (savedOutfits (app (removeOutfit P savedAt removed w)))"
        using assms(2) ne by (simp add: removeOutfit_def)
      show "prefix (objects (app w)) (objects (app (removeOutfit P savedAt removed w)))"
        by (simp add: removeOutfit_def)
    qed
  next
    case (SavedOutfitClick outfitId)
    show ?thesis
    proof (rule k)
      show "handle P e w = Typed (loadSavedOutfit outfitId w)"
        unfolding SavedOutfitClick by simp
      show "x \<in> set (savedOutfits (app (loadSavedOutfit outfitId w)))"
        using assms(2) by (simp add: loadSavedOutfit_def split: option.splits)
      show "prefix (objects (app w)) (objects (app (loadSavedOutfit outfitId w)))"
        by (simp add: loadSavedOutfit_def split: option.splits)
    qed
  next
    case (TopClick index)
    show ?thesis
    proof (rule k)
      show "handle P e w = Typed (clickTop index w)"
        unfolding TopClick by simp
      show "x \<in> set (savedOutfits (app (clickTop index w)))"
        using assms(2) by (simp add: clickTop_def)
      show "prefix (objects (app w)) (objects (app (clickTop index w)))"
        by (simp add: clickTop_def)
    qed
  next
    case (BottomClick index)
    show ?thesis
    proof (rule k)
      show "handle P e w = Typed (clickBottom index w)"
        unfolding BottomClick by simp
      show "x \<in> set (savedOutfits (app (clickBottom index w)))"
        using assms(2) by (simp add: clickBottom_def)
      show "prefix (objects (app w)) (objects (app (clickBottom index w)))"
        by (simp add: clickBottom_def)
    qed
  next
    case (ExportClick exportDate now)
    show ?thesis
    proof (rule k)
      show "handle P e w = Typed (snd (exportWardrobe P exportDate now w))"
        unfolding ExportClick by simp
      show "x \<in> set (savedOutfits (app (snd (exportWardrobe P exportDate now w))))"
        using assms(2) by (simp add: exportWardrobe_def Let_def)
      show "prefix (objects (app w)) (objects (app (snd (exportWardrobe P exportDate now w))))"
        by (simp add: exportWardrobe_def Let_def)
    qed
  next
    case (ImportChosen savedAt chosen)
    show ?thesis
    proof (cases chosen)
      case None
      show ?thesis
      proof (rule k)
        show "handle P e w = Typed w"
          unfolding ImportChosen None by (simp add: importWardrobe_def)
        show "x \<in> set (savedOutfits (app w))" by (rule assms(2))
        show "prefix (objects (app w)) (objects (app w))" by simp
      qed
    next
      case (Some result)
      with assms(1) ImportChosen
      have p: "JSON_parse P result = None \<or> JSON_parse P result = Some JNull"
        by simp
      show ?thesis
      proof (rule k)
        show "handle P e w = Typed (showNotification ErrorImportingConfig ErrorToast w)"
          unfolding ImportChosen Some using p
          by (auto simp: importWardrobe_def read_collections_def)
        show "x \<in> set (savedOutfits (app (showNotification ErrorImportingConfig ErrorToast w)))"
          using assms(2) by simp
        show "prefix (objects (app w))
                (objects (app (showNotification ErrorImportingConfig ErrorToast w)))"
          by simp
      qed
    qed
  next
    case (ClearDataClick confirmed)
    with assms(1) have nc: "\<not> confirmed" by simp
    show ?thesis
    proof (rule k)
      show "handle P e w = Typed w"
        unfolding ClearDataClick using nc by (simp add: clearAllData_def)
      show "x \<in> set (savedOutfits (app w))" by (rule assms(2))
      show "prefix (objects (app w)) (objects (app w))" by simp
    qed
  qed
qed

lemma run_keeps:
  assumes "list_all (keeps_outfit P i) es" and "x \<in> set (savedOutfits (app w))" and "o_id x = i"
  shows "\<exists>w'. run P es w = Typed w' \<and> x \<in> set (savedOutfits (app w')) \<and>
              prefix (objects (app w)) (objects (app w'))"
  using assms
proof (induction es arbitrary: w)
  case Nil
  then have "run P [] w = Typed w \<and> x \<in> set (savedOutfits (app w)) \<and>
              prefix (objects (app w)) (objects (app w))"
    by simp
  then show ?case by (rule exI)
next
  case (Cons e es)
  from Cons.prems(1) have ke: "keeps_outfit P i e" and kes: "list_all (keeps_outfit P i) es"
    by simp_all
  from handle_keeps [OF ke Cons.prems(2,3)] obtain w1 where
    h: "handle P e w = Typed w1" and m1: "x \<in> set (savedOutfits (app w1))" and
    p1: "prefix (objects (app w)) (objects (app w1))"
    by (elim exE conjE)
  from Cons.IH [OF kes m1 Cons.prems(3)] obtain w' where
    r: "run P es w1 = Typed w'" and m: "x \<in> set (savedOutfits (app w'))" and
    p2: "prefix (objects (app w1)) (objects (app w'))"
    by (elim exE conjE)
  from p1 p2 have p: "prefix (objects (app w)) (objects (app w'))"
    by (rule prefix_order.order_trans)
  from h r have "run P (e # es) w = Typed w'"
    by simp
  with m p have "run P (e # es) w = Typed w' \<and> x \<in> set (savedOutfits (app w')) \<and>
              prefix (objects (app w)) (objects (app w'))"
    by (intro conjI)
  then show ?case by (rule exI)
qed

subsection \<open>Saving an outfit\<close>

text \<open>
  Claim C1, as amended. With either selection empty, \<open>saveOutfit\<close> only shows the error
  and nothing else changes. Otherwise it appends one outfit whose \<open>top\<close> and \<open>bottom\<close>
  are the selected references themselves: the outfit shares the garment objects with
  the wardrobe, no copy is made. No event of the script writes to a garment object once
  it exists. So across every sequence of later events that neither removes the outfit
  nor replaces the saved list (\<open>removeOutfit\<close> with its id, a confirmed clear, the load
  at page start, an import whose text parses), the script runs through, the outfit is
  still stored with the same two references, and the two garments read as they did
  when it was saved.
\<close>

theorem saveOutfit_shares_selected:
  "(selectedTop (app w) = None \<or> selectedBottom (app w) = None \<longrightarrow>
      saveOutfit P now savedAt w = showNotification SelectCompleteOutfit ErrorToast w)
   \<and> (selectedTop (app w) = Some t \<and> selectedBottom (app w) = Some b \<longrightarrow>
        app (saveOutfit P now savedAt w) =
          (app w)\<lparr>savedOutfits := savedOutfits (app w) @ [\<lparr>o_id = now, o_top = t, o_bottom = b\<rparr>]\<rparr>
        \<and> (wf_app (app w) \<and> list_all (keeps_outfit P now) es \<longrightarrow>
             (\<exists>w'. run P es (saveOutfit P now savedAt w) = Typed w' \<and>
                   \<lparr>o_id = now, o_top = t, o_bottom = b\<rparr> \<in> set (savedOutfits (app w')) \<and>
                   deref (app w') t = deref (app w) t \<and> deref (app w') b = deref (app w) b)))"
proof -
  have a: "selectedTop (app w) = None \<or> selectedBottom (app w) = None \<longrightarrow>
      saveOutfit P now savedAt w = showNotification SelectCompleteOutfit ErrorToast w"
    by (auto simp: saveOutfit_def split: option.splits)
  have b: "selectedTop (app w) = Some t \<and> selectedBottom (app w) = Some b \<longrightarrow>
        app (saveOutfit P now savedAt w) =
          (app w)\<lparr>savedOutfits := savedOutfits (app w) @ [\<lparr>o_id = now, o_top = t, o_bottom = b\<rparr>]\<rparr>"
    by (simp add: saveOutfit_def Let_def)
  have c: "selectedTop (app w) = Some t \<and> selectedBottom (app w) = Some b \<longrightarrow>
        (wf_app (app w) \<and> list_all (keeps_outfit P now) es \<longrightarrow>
             (\<exists>w'. run P es (saveOutfit P now savedAt w) = Typed w' \<and>
                   \<lparr>o_id = now, o_top = t, o_bottom = b\<rparr> \<in> set (savedOutfits (app w')) \<and>
                   deref (app w') t = deref (app w) t \<and> deref (app w') b = deref (app w) b))"
  proof (intro impI)
    assume sel: "selectedTop (app w) = Some t \<and> selectedBottom (app w) = Some b"
    assume h: "wf_app (app w) \<and> list_all (keeps_outfit P now) es"
    let ?x = "\<lparr>o_id = now, o_top = t, o_bottom = b\<rparr>"
    from h sel have lt: "t < length (objects (app w))" "b < length (objects (app w))"
      by (simp_all add: wf_app_def)
    from sel b have o: "objects (app (saveOutfit P now savedAt w)) = objects (app w)"
      by simp
    from sel b have m: "?x \<in> set (savedOutfits (app (saveOutfit P now savedAt w)))"
      by simp
    have i: "o_id ?x = now"
      by simp
    from h have ks: "list_all (keeps_outfit P now) es" ..
    from run_keeps [OF ks m i] obtain w' where
      r: "run P es (saveOutfit P now savedAt w) = Typed w'" and
      s: "?x \<in> set (savedOutfits (app w'))" and
      p: "prefix (objects (app w)) (objects (app w'))"
      unfolding o by (elim exE conjE)
    have dt: "deref (app w') t = deref (app w) t"
      unfolding deref_def using p lt(1) by (rule prefix_nth)
    have db: "deref (app w') b = deref (app w) b"
      unfolding deref_def using p lt(2) by (rule prefix_nth)
    from r s dt db have "run P es (saveOutfit P now savedAt w) = Typed w' \<and>
        ?x \<in> set (savedOutfits (app w')) \<and>
        deref (app w') t = deref (app w) t \<and> deref (app w') b = deref (app w) b"
      by (intro conjI)
    then show "\<exists>w'. run P es (saveOutfit P now savedAt w) = Typed w' \<and>
        ?x \<in> set (savedOutfits (app w')) \<and>
        deref (app w') t = deref (app w) t \<and> deref (app w') b = deref (app w) b"
      by (rule exI)
  qed
  from a b c show ?thesis by blast
qed

theorem saveOutfit_shares_selected_witness:
  "saveOutfit (stub_platform JNull None) 1700000001000 ''2024-01-02T10:00:00.000Z'' closet_world
     = showNotification SelectCompleteOutfit ErrorToast closet_world
   \<and> savedOutfits (app (saveOutfit (stub_platform JNull None) 1700000001000
        ''2024-01-02T10:00:00.000Z'' sample_world))
     = [\<lparr>o_id = 1700000001000, o_top = 0, o_bottom = 1\<rparr>]
   \<and> (\<exists>w'. run (stub_platform JNull None)
              [RemoveOutfitClick ''2024-01-02T10:01:00.000Z'' 42,
               ClearDataClick False,
               ImportChosen ''2024-01-02T10:02:00.000Z'' (Some ''{oops''),
               ShuffleClick (3 / 4) (1 / 4),
               SaveOutfitClick 1700000002000 ''2024-01-02T10:03:00.000Z'']
              (saveOutfit (stub_platform JNull None) 1700000001000
                 ''2024-01-02T10:00:00.000Z'' sample_world) = Typed w'
          \<and> \<lparr>o_id = 1700000001000, o_top = 0, o_bottom = 1\<rparr> \<in> set (savedOutfits (app w'))
          \<and> deref (app w') 0 = shirt \<and> deref (app w') 1 = jeans)"
proof -
  let ?P = "stub_platform JNull None"
  let ?es = "[RemoveOutfitClick ''2024-01-02T10:01:00.000Z'' 42,
               ClearDataClick False,
               ImportChosen ''2024-01-02T10:02:00.000Z'' (Some ''{oops''),
               ShuffleClick (3 / 4) (1 / 4),
               SaveOutfitClick 1700000002000 ''2024-01-02T10:03:00.000Z'']"
  let ?w1 = "saveOutfit ?P 1700000001000 ''2024-01-02T10:00:00.000Z'' sample_world"
  have n: "selectedTop (app closet_world) = None \<or> selectedBottom (app closet_world) = None"
    by (simp add: closet_world_def)
  have s: "selectedTop (app sample_world) = Some 0 \<and> selectedBottom (app sample_world) = Some 1"
    by (simp add: sample_world_def sample_app_def)
  have l: "wf_app (app sample_world) \<and> list_all (keeps_outfit ?P 1700000001000) ?es"
    by (simp add: wf_app_def sample_world_def sample_app_def stub_platform_def)
  have d: "deref (app sample_world) 0 = shirt" "deref (app sample_world) 1 = jeans"
    by (simp_all add: deref_def sample_world_def sample_app_def)
  have e: "savedOutfits (app sample_world) = []"
    by (simp add: sample_world_def sample_app_def)
  note t1 = saveOutfit_shares_selected [where w = closet_world and P = ?P and now = 1700000001000
      and savedAt = "''2024-01-02T10:00:00.000Z''"]
  note t2 = saveOutfit_shares_selected [where w = sample_world and P = ?P and now = 1700000001000
      and savedAt = "''2024-01-02T10:00:00.000Z''" and t = 0 and b = 1 and es = ?es]
  from t1 have "selectedTop (app closet_world) = None \<or> selectedBottom (app closet_world) = None \<longrightarrow>
      saveOutfit ?P 1700000001000 ''2024-01-02T10:00:00.000Z'' closet_world
        = showNotification SelectCompleteOutfit ErrorToast closet_world"
    by (rule conjunct1)
  from this n have r1: "saveOutfit ?P 1700000001000 ''2024-01-02T10:00:00.000Z'' closet_world
     = showNotification SelectCompleteOutfit ErrorToast closet_world"
    by (rule mp)
  from t2 have "selectedTop (app sample_world) = Some 0 \<and> selectedBottom (app sample_world) = Some 1 \<longrightarrow>
        app ?w1 =
          (app sample_world)\<lparr>savedOutfits := savedOutfits (app sample_world) @
             [\<lparr>o_id = 1700000001000, o_top = 0, o_bottom = 1\<rparr>]\<rparr>
        \<and> (wf_app (app sample_world) \<and> list_all (keeps_outfit ?P 1700000001000) ?es \<longrightarrow>
             (\<exists>w'. run ?P ?es ?w1 = Typed w' \<and>
                   \<lparr>o_id = 1700000001000, o_top = 0, o_bottom = 1\<rparr> \<in> set (savedOutfits (app w')) \<and>
                   deref (app w') 0 = deref (app sample_world) 0 \<and>
                   deref (app w') 1 = deref (app sample_world) 1))"
    by (rule conjunct2)
  from this s have q: "app ?w1 =
          (app sample_world)\<lparr>savedOutfits := savedOutfits (app sample_world) @
             [\<lparr>o_id = 1700000001000, o_top = 0, o_bottom = 1\<rparr>]\<rparr>
        \<and> (wf_app (app sample_world) \<and> list_all (keeps_outfit ?P 1700000001000) ?es \<longrightarrow>
             (\<exists>w'. run ?P ?es ?w1 = Typed w' \<and>
                   \<lparr>o_id = 1700000001000, o_top = 0, o_bottom = 1\<rparr> \<in> set (savedOutfits (app w')) \<and>
                   deref (app w') 0 = deref (app sample_world) 0 \<and>
                   deref (app w') 1 = deref (app sample_world) 1))"
    by (rule mp)
  from q have "app ?w1 =
          (app sample_world)\<lparr>savedOutfits := savedOutfits (app sample_world) @
             [\<lparr>o_id = 1700000001000, o_top = 0, o_bottom = 1\<rparr>]\<rparr>"
    by (rule conjunct1)
  then have r2: "savedOutfits (app ?w1) = [\<lparr>o_id = 1700000001000, o_top = 0, o_bottom = 1\<rparr>]"
    unfolding e by simp
  from q have "wf_app (app sample_world) \<and> list_all (keeps_outfit ?P 1700000001000) ?es \<longrightarrow>
             (\<exists>w'. run ?P ?es ?w1 = Typed w' \<and>
                   \<lparr>o_id = 1700000001000, o_top = 0, o_bottom = 1\<rparr> \<in> set (savedOutfits (app w')) \<and>
                   deref (app w') 0 = deref (app sample_world) 0 \<and>
                   deref (app w') 1 = deref (app sample_world) 1)"
    by (rule conjunct2)
  from this l have r3: "\<exists>w'. run ?P ?es ?w1 = Typed w' \<and>
                   \<lparr>o_id = 1700000001000, o_top = 0, o_bottom = 1\<rparr> \<in> set (savedOutfits (app w')) \<and>
                   deref (app w') 0 = shirt \<and> deref (app w') 1 = jeans"
    unfolding d by (rule mp)
  show ?thesis
    apply (intro conjI)
      apply (rule r1)
     apply (rule r2)
    apply (rule r3)
    done
qed

text \<open>
  The claim as first stated has the outfit hold deep copies. After \<open>saveOutfit\<close> on the
  sample state the store holds the same two objects as before, the outfit's \<open>top\<close> is
  reference 0, which is also the one entry of \<open>topwear\<close>, and a write to that object
  shows through the outfit.
\<close>

theorem saveOutfit_copy_counterexample:
  "o_top (last (savedOutfits (app (saveOutfit (stub_platform JNull None) 1700000001000
      ''2024-01-02T10:00:00.000Z'' sample_world)))) = 0
   \<and> topwear (app (saveOutfit (stub_platform JNull None) 1700000001000
      ''2024-01-02T10:00:00.000Z'' sample_world)) = [0]
   \<and> objects (app (saveOutfit (stub_platform JNull None) 1700000001000
      ''2024-01-02T10:00:00.000Z'' sample_world)) = [shirt, jeans]
   \<and> deref ((app (saveOutfit (stub_platform JNull None) 1700000001000
               ''2024-01-02T10:00:00.000Z'' sample_world))\<lparr>objects := [polo, jeans]\<rparr>)
        (o_top (last (savedOutfits (app (saveOutfit (stub_platform JNull None) 1700000001000
           ''2024-01-02T10:00:00.000Z'' sample_world))))) = polo
   \<and> polo \<noteq> shirt"
  by (simp add: saveOutfit_def Let_def sample_world_def sample_app_def deref_def polo_def shirt_def)

end
